theory Spec2Isabelle
  imports Complex_Main
begin

section \<open>Python values used by the Jira connector\<close>

text \<open>
  The connector (\<^verbatim>\<open>Jira_connector.py\<close>, class \<^verbatim>\<open>Tools\<close>) moves deserialised JSON
  around: dictionaries, lists, strings, integers, booleans and \<^verbatim>\<open>None\<close>.
  A dictionary is kept as the list of its items in insertion order (its keys are
  distinct); a lookup takes the first item with the key.
  Strings are \<^typ>\<open>string\<close>, one character per code point below 256.
  Floating-point numbers are outside the model.
  The string that an operation returns is a list of code points, since one literal
  of the module has characters above 255.
\<close>

type_synonym unicode = "nat list"

definition unicode_of :: "string \<Rightarrow> unicode" where
  "unicode_of s = map of_char s"

datatype json =
    JNull
  | JBool bool
  | JInt int
  | JStr string
  | JArr "json list"
  | JObj "(string \<times> json) list"

text \<open>
  An exception is its class, as far as the \<^verbatim>\<open>except\<close> clauses of the module tell
  classes apart, and the text \<^verbatim>\<open>str(e)\<close>.
  \<open>Timeout\<close> is \<^verbatim>\<open>requests.exceptions.Timeout\<close>, \<open>JSONDecodeError\<close> is
  \<^verbatim>\<open>json.JSONDecodeError\<close>, \<open>ValidationError\<close> is pydantic's, and
  \<open>PlainException\<close> is the \<^verbatim>\<open>Exception(...)\<close> that \<^verbatim>\<open>_handshake\<close> raises itself.
\<close>

datatype exn_class =
    Timeout
  | RequestError
  | JSONDecodeError
  | AttributeError
  | TypeError
  | KeyError
  | ValueError
  | RecursionError
  | ValidationError
  | PlainException

datatype exn = Exn exn_class string

fun exn_class_of :: "exn \<Rightarrow> exn_class" where
  "exn_class_of (Exn c m) = c"

fun exn_str :: "exn \<Rightarrow> string" where
  "exn_str (Exn c m) = m"

subsection \<open>String operations\<close>

text \<open>\<^verbatim>\<open>sep.join(xs)\<close> on a list of strings.\<close>

fun join :: "string \<Rightarrow> string list \<Rightarrow> string" where
  "join sep [] = []"
| "join sep [x] = x"
| "join sep (x # y # ys) = x @ sep @ join sep (y # ys)"

text \<open>\<^verbatim>\<open>s.startswith(p)\<close>.\<close>

definition startswith :: "string \<Rightarrow> string \<Rightarrow> bool" where
  "startswith s p = (take (length p) s = p)"

text \<open>\<^verbatim>\<open>sub in s\<close> on two strings.\<close>

fun str_contains :: "string \<Rightarrow> string \<Rightarrow> bool" where
  "str_contains [] sub = (sub = [])"
| "str_contains (c # cs) sub = (startswith (c # cs) sub \<or> str_contains cs sub)"

text \<open>\<^verbatim>\<open>s.split(sep)\<close> for a separator of one character; the result is never empty.\<close>

fun split_on :: "char \<Rightarrow> string \<Rightarrow> string list" where
  "split_on sep [] = [[]]"
| "split_on sep (c # cs) =
     (if c = sep then [] # split_on sep cs
      else (case split_on sep cs of
              [] \<Rightarrow> [[c]]
            | w # ws \<Rightarrow> (c # w) # ws))"

text \<open>
  \<^verbatim>\<open>str.isspace\<close> on one character below 256: tab to carriage return, the four
  separators \<open>0x1c\<close> to \<open>0x1f\<close>, the space, \<open>0x85\<close> and \<open>0xa0\<close>.
\<close>

definition is_space :: "char \<Rightarrow> bool" where
  "is_space c =
     (let n = (of_char c :: nat)
      in (9 \<le> n \<and> n \<le> 13) \<or> (28 \<le> n \<and> n \<le> 32) \<or> n = 133 \<or> n = 160)"

text \<open>\<^verbatim>\<open>s.strip()\<close>.\<close>

definition strip :: "string \<Rightarrow> string" where
  "strip s = rev (dropWhile is_space (rev (dropWhile is_space s)))"

text \<open>Decimal digits of an integer, as \<^verbatim>\<open>str(n)\<close> prints them.\<close>

definition digit_char :: "nat \<Rightarrow> char" where
  "digit_char d = ''0123456789abcdef'' ! d"

fun show_nat :: "nat \<Rightarrow> string" where
  "show_nat n =
     (if n < 10 then [digit_char n]
      else show_nat (n div 10) @ [digit_char (n mod 10)])"

declare show_nat.simps [simp del]

definition show_int :: "int \<Rightarrow> string" where
  "show_int i = (if i < 0 then CHR ''-'' # show_nat (nat (- i)) else show_nat (nat i))"

definition hex2 :: "char \<Rightarrow> string" where
  "hex2 c = [digit_char ((of_char c :: nat) div 16), digit_char ((of_char c :: nat) mod 16)]"

subsection \<open>\<^verbatim>\<open>repr\<close> and \<^verbatim>\<open>str\<close> of a value\<close>

text \<open>
  \<^verbatim>\<open>repr\<close> of a string: single quotes, unless the string holds a single quote and
  no double quote; the quote and the backslash are escaped, tab, newline and
  carriage return have their short escapes, and every other character that is not
  printable is written \<^verbatim>\<open>\xhh\<close>.
\<close>

definition printable :: "char \<Rightarrow> bool" where
  "printable c =
     (let n = (of_char c :: nat)
      in (32 \<le> n \<and> n \<le> 126) \<or> (161 \<le> n \<and> n \<noteq> 173))"

definition repr_char :: "char \<Rightarrow> char \<Rightarrow> string" where
  "repr_char q c =
     (if c = q \<or> c = CHR 0x5C then [CHR 0x5C, c]
      else if c = CHR 0x09 then [CHR 0x5C, CHR ''t'']
      else if c = CHR 0x0A then [CHR 0x5C, CHR ''n'']
      else if c = CHR 0x0D then [CHR 0x5C, CHR ''r'']
      else if printable c then [c]
      else [CHR 0x5C, CHR ''x''] @ hex2 c)"

definition repr_str :: "string \<Rightarrow> string" where
  "repr_str s =
     (let q = (if CHR 0x27 \<in> set s \<and> CHR 0x22 \<notin> set s then CHR 0x22 else CHR 0x27)
      in [q] @ concat (map (repr_char q) s) @ [q])"

fun py_repr :: "json \<Rightarrow> string" where
  "py_repr JNull = ''None''"
| "py_repr (JBool b) = (if b then ''True'' else ''False'')"
| "py_repr (JInt i) = show_int i"
| "py_repr (JStr s) = repr_str s"
| "py_repr (JArr xs) = ''['' @ join '', '' (map py_repr xs) @ '']''"
| "py_repr (JObj kvs) =
     ''{'' @ join '', '' (map (\<lambda>(k, v). repr_str k @ '': '' @ py_repr v) kvs) @ ''}''"

text \<open>\<^verbatim>\<open>str(v)\<close>, which is also what an f-string puts in place of \<^verbatim>\<open>{v}\<close>.\<close>

fun py_str :: "json \<Rightarrow> string" where
  "py_str (JStr s) = s"
| "py_str v = py_repr v"

subsection \<open>\<^verbatim>\<open>json.dumps\<close>\<close>

text \<open>
  The encoder escapes the double quote, the backslash and the control characters.
  With \<^verbatim>\<open>ensure_ascii\<close> (the default) it also escapes every character above
  \<open>0x7e\<close>; \<open>ascii\<close> is that flag.
\<close>

definition dumps_char :: "bool \<Rightarrow> char \<Rightarrow> string" where
  "dumps_char ascii c =
     (if c = CHR 0x22 then [CHR 0x5C, CHR 0x22]
      else if c = CHR 0x5C then [CHR 0x5C, CHR 0x5C]
      else if c = CHR 0x0A then [CHR 0x5C, CHR ''n'']
      else if c = CHR 0x0D then [CHR 0x5C, CHR ''r'']
      else if c = CHR 0x09 then [CHR 0x5C, CHR ''t'']
      else if c = CHR 0x08 then [CHR 0x5C, CHR ''b'']
      else if c = CHR 0x0C then [CHR 0x5C, CHR ''f'']
      else if (of_char c :: nat) < 32 \<or> (ascii \<and> 126 < (of_char c :: nat))
        then [CHR 0x5C, CHR ''u'', CHR ''0'', CHR ''0''] @ hex2 c
      else [c])"

definition dumps_str :: "bool \<Rightarrow> string \<Rightarrow> string" where
  "dumps_str ascii s = [CHR 0x22] @ concat (map (dumps_char ascii) s) @ [CHR 0x22]"

text \<open>\<^verbatim>\<open>json.dumps(v)\<close>: one line, items separated by \<^verbatim>\<open>", "\<close> and keys by \<^verbatim>\<open>": "\<close>.\<close>

fun json_dumps :: "json \<Rightarrow> string" where
  "json_dumps JNull = ''null''"
| "json_dumps (JBool b) = (if b then ''true'' else ''false'')"
| "json_dumps (JInt i) = show_int i"
| "json_dumps (JStr s) = dumps_str True s"
| "json_dumps (JArr xs) = ''['' @ join '', '' (map json_dumps xs) @ '']''"
| "json_dumps (JObj kvs) =
     ''{'' @ join '', '' (map (\<lambda>(k, v). dumps_str True k @ '': '' @ json_dumps v) kvs) @ ''}''"

text \<open>
  \<^verbatim>\<open>json.dumps(v, ensure_ascii=False, indent=2)\<close>: an empty container stays on one
  line; otherwise each item is on a line of its own, two spaces deeper than the
  bracket that closes the container. \<open>lvl\<close> is the nesting depth.
\<close>

definition newline_indent :: "nat \<Rightarrow> string" where
  "newline_indent lvl = CHR 0x0A # replicate (2 * lvl) CHR '' ''"

fun dumps_indent :: "nat \<Rightarrow> json \<Rightarrow> string" where
  "dumps_indent lvl JNull = ''null''"
| "dumps_indent lvl (JBool b) = (if b then ''true'' else ''false'')"
| "dumps_indent lvl (JInt i) = show_int i"
| "dumps_indent lvl (JStr s) = dumps_str False s"
| "dumps_indent lvl (JArr xs) =
     (if xs = [] then ''[]''
      else ''['' @ newline_indent (Suc lvl)
           @ join ('','' @ newline_indent (Suc lvl)) (map (dumps_indent (Suc lvl)) xs)
           @ newline_indent lvl @ '']'')"
| "dumps_indent lvl (JObj kvs) =
     (if kvs = [] then ''{}''
      else ''{'' @ newline_indent (Suc lvl)
           @ join ('','' @ newline_indent (Suc lvl))
               (map (\<lambda>(k, v). dumps_str False k @ '': '' @ dumps_indent (Suc lvl) v) kvs)
           @ newline_indent lvl @ ''}'')"

definition json_dumps_indent2 :: "json \<Rightarrow> string" where
  "json_dumps_indent2 v = dumps_indent 0 v"

subsection \<open>Dynamic operations on a value\<close>

definition type_name :: "json \<Rightarrow> string" where
  "type_name v =
     (case v of JNull \<Rightarrow> ''NoneType'' | JBool b \<Rightarrow> ''bool'' | JInt i \<Rightarrow> ''int''
      | JStr s \<Rightarrow> ''str'' | JArr xs \<Rightarrow> ''list'' | JObj kvs \<Rightarrow> ''dict'')"

definition quoted :: "string \<Rightarrow> string" where
  "quoted s = [CHR 0x27] @ s @ [CHR 0x27]"

text \<open>The exceptions the interpreter raises (wording of CPython 3.12).\<close>

definition no_attribute :: "json \<Rightarrow> string \<Rightarrow> exn" where
  "no_attribute v a =
     Exn AttributeError (quoted (type_name v) @ '' object has no attribute '' @ quoted a)"

definition not_iterable :: "json \<Rightarrow> exn" where
  "not_iterable v = Exn TypeError (quoted (type_name v) @ '' object is not iterable'')"

definition not_container :: "json \<Rightarrow> exn" where
  "not_container v =
     Exn TypeError (''argument of type '' @ quoted (type_name v) @ '' is not iterable'')"

text \<open>\<^verbatim>\<open>v.get(key, default)\<close>: only a dictionary has the method.\<close>

definition py_get :: "json \<Rightarrow> string \<Rightarrow> json \<Rightarrow> exn + json" where
  "py_get v key dflt =
     (case v of
        JObj kvs \<Rightarrow> (case map_of kvs key of None \<Rightarrow> Inr dflt | Some x \<Rightarrow> Inr x)
      | _ \<Rightarrow> Inl (no_attribute v ''get''))"

text \<open>
  \<^verbatim>\<open>key in v\<close> for a string \<open>key\<close>: a key of a dictionary, an element of a list,
  a substring of a string; any other value raises.
\<close>

definition py_in :: "string \<Rightarrow> json \<Rightarrow> exn + bool" where
  "py_in key v =
     (case v of
        JObj kvs \<Rightarrow> Inr (key \<in> set (map fst kvs))
      | JArr xs \<Rightarrow> Inr (JStr key \<in> set xs)
      | JStr s \<Rightarrow> Inr (str_contains s key)
      | _ \<Rightarrow> Inl (not_container v))"

text \<open>
  \<^verbatim>\<open>v[key]\<close> for a string \<open>key\<close>. The module evaluates it only after
  \<^verbatim>\<open>key in v\<close> was true, so a dictionary has the key; a list and a string
  refuse a string as index.
\<close>

definition py_getitem :: "json \<Rightarrow> string \<Rightarrow> exn + json" where
  "py_getitem v key =
     (case v of
        JObj kvs \<Rightarrow>
          (case map_of kvs key of
             None \<Rightarrow> Inl (Exn KeyError (repr_str key))
           | Some x \<Rightarrow> Inr x)
      | JArr xs \<Rightarrow> Inl (Exn TypeError ''list indices must be integers or slices, not str'')
      | JStr s \<Rightarrow> Inl (Exn TypeError (''string indices must be integers, not '' @ quoted ''str''))
      | _ \<Rightarrow> Inl (Exn TypeError (quoted (type_name v) @ '' object is not subscriptable'')))"

text \<open>
  The items a \<^verbatim>\<open>for\<close> loop visits: the elements of a list, the keys of a
  dictionary, the characters of a string; any other value raises.
\<close>

definition py_iter :: "json \<Rightarrow> exn + json list" where
  "py_iter v =
     (case v of
        JArr xs \<Rightarrow> Inr xs
      | JObj kvs \<Rightarrow> Inr (map (\<lambda>kv. JStr (fst kv)) kvs)
      | JStr s \<Rightarrow> Inr (map (\<lambda>c. JStr [c]) s)
      | _ \<Rightarrow> Inl (not_iterable v))"

text \<open>
  \<^verbatim>\<open>"\n".join(xs)\<close> on a list of values: the first item that is not a string
  raises \<^verbatim>\<open>TypeError\<close>. \<open>i\<close> is the index of the head of the list.
\<close>

fun strings_of :: "nat \<Rightarrow> json list \<Rightarrow> exn + string list" where
  "strings_of i [] = Inr []"
| "strings_of i (JStr s # xs) =
     (case strings_of (Suc i) xs of Inl e \<Rightarrow> Inl e | Inr ss \<Rightarrow> Inr (s # ss))"
| "strings_of i (v # xs) =
     Inl (Exn TypeError (''sequence item '' @ show_nat i @ '': expected str instance, ''
                          @ type_name v @ '' found''))"

definition py_join :: "string \<Rightarrow> json list \<Rightarrow> exn + string" where
  "py_join sep xs =
     (case strings_of 0 xs of Inl e \<Rightarrow> Inl e | Inr ss \<Rightarrow> Inr (join sep ss))"


section \<open>Configuration and the caller's context\<close>

text \<open>The two pydantic models of class \<^verbatim>\<open>Tools\<close>, with the defaults of their fields.\<close>

record Valves =
  MCP_SERVER_URL :: string
  MCP_SERVER_GROUP :: string
  ENABLED_TOOLS :: string
  READ_ONLY_MODE :: bool

record UserValves =
  LITELLM_API_KEY :: string
  JIRA_PAT :: string
  REQUEST_TIMEOUT :: int

definition default_Valves :: Valves where
  "default_Valves =
     \<lparr>MCP_SERVER_URL = ''https://<LITELLM_APU_URL>/mcp/'',
      MCP_SERVER_GROUP = ''<MCP_GROUP>'',
      ENABLED_TOOLS = [],
      READ_ONLY_MODE = True\<rparr>"

definition default_UserValves :: UserValves where
  "default_UserValves = \<lparr>LITELLM_API_KEY = [], JIRA_PAT = [], REQUEST_TIMEOUT = 120\<rparr>"

text \<open>The instance \<^verbatim>\<open>self\<close>, as \<^verbatim>\<open>__init__\<close> builds it.\<close>

record Tools =
  valves :: Valves
  user_valves :: UserValves
  protocol_version :: string
  client_name :: string
  client_version :: string

definition init_Tools :: Tools where
  "init_Tools =
     \<lparr>valves = default_Valves,
      user_valves = default_UserValves,
      protocol_version = ''2024-11-05'',
      client_name = ''OpenWebUI-MCP-Jira'',
      client_version = ''1.2.0''\<rparr>"

subsection \<open>\<^verbatim>\<open>_get_user_valves\<close>\<close>

text \<open>
  The host passes \<^verbatim>\<open>__user__\<close>: \<^verbatim>\<open>None\<close> or a dictionary. A value of the
  dictionary is an instance of \<^verbatim>\<open>UserValves\<close>, a dictionary, or another plain
  value.

  For a dictionary the method calls \<^verbatim>\<open>self.UserValves(**valves)\<close>. The constructor
  belongs to pydantic, and what it accepts differs between the versions of the
  library; a dictionary comes here with what the constructor makes of it: the
  instance it returns, or the exception it raises (\<^verbatim>\<open>ValidationError\<close> for a
  field of the wrong type).
\<close>

datatype plain_value =
    PNone
  | PBool bool
  | PInt int
  | PStr string
  | PList "json list"

datatype user_entry =
    TypedValves UserValves
  | DictValves "(string \<times> json) list" "exn + UserValves"
  | PlainValue plain_value

type_synonym caller_context = "(string \<times> user_entry) list option"

definition get_user_valves :: "Tools \<Rightarrow> caller_context \<Rightarrow> exn + UserValves" where
  "get_user_valves self user =
     (case user of
        None \<Rightarrow> Inr (user_valves self)
      | Some d \<Rightarrow>
          if d = [] then Inr (user_valves self)
          else (case map_of d ''valves'' of
                  None \<Rightarrow> Inr (user_valves self)
                | Some (PlainValue PNone) \<Rightarrow> Inr (user_valves self)
                | Some (TypedValves v) \<Rightarrow> Inr v
                | Some (DictValves kvs constructed) \<Rightarrow> constructed
                | Some (PlainValue _) \<Rightarrow> Inr (user_valves self)))"

section \<open>Requests and the network\<close>

record request =
  url :: string
  headers :: "(string \<times> string) list"
  payload :: json
  timeout :: int

text \<open>
  What the module reads of a response: the status, the text of the body, the
  header \<^verbatim>\<open>Mcp-Session-Id\<close> if there is one, and what \<^verbatim>\<open>response.json()\<close>
  returns or raises.
\<close>

record response =
  status_code :: int
  body_text :: string
  session_id_header :: "string option"
  body :: "exn + json"

datatype outcome = Responded response | Failed exn

text \<open>
  The network decides the outcome of each \<^verbatim>\<open>requests.post\<close> from the number of
  requests sent before it and from the request. The requests sent so far are the
  state that every operation threads through.
\<close>

type_synonym network = "nat \<Rightarrow> request \<Rightarrow> outcome"

definition post :: "network \<Rightarrow> request \<Rightarrow> request list \<Rightarrow> outcome \<times> request list" where
  "post net req sent = (net (length sent) req, sent @ [req])"

subsection \<open>\<^verbatim>\<open>_get_headers\<close> and \<^verbatim>\<open>_json_rpc_payload\<close>\<close>

definition get_headers :: "Tools \<Rightarrow> UserValves \<Rightarrow> string option \<Rightarrow> (string \<times> string) list" where
  "get_headers self uv session_id =
     [(''Content-Type'', ''application/json''),
      (''Accept'', ''application/json, text/event-stream;q=0.5''),
      (''User-Agent'', client_name self @ ''/'' @ client_version self),
      (''Mcp-Protocol-Version'', protocol_version self),
      (''x-mcp-servers'', MCP_SERVER_GROUP (valves self))]
     @ (if LITELLM_API_KEY uv \<noteq> []
        then [(''x-litellm-api-key'', ''Bearer '' @ LITELLM_API_KEY uv)] else [])
     @ (if JIRA_PAT uv \<noteq> []
        then [(''x-mcp-jira-authorization'', ''Token '' @ JIRA_PAT uv)] else [])
     @ (case session_id of
          None \<Rightarrow> []
        | Some sid \<Rightarrow> if sid \<noteq> [] then [(''Mcp-Session-Id'', sid)] else [])"

definition json_rpc_payload :: "string \<Rightarrow> json option \<Rightarrow> int \<Rightarrow> json" where
  "json_rpc_payload method params request_id =
     JObj ([(''jsonrpc'', JStr ''2.0''), (''method'', JStr method), (''id'', JInt request_id)]
           @ (case params of None \<Rightarrow> [] | Some p \<Rightarrow> [(''params'', p)]))"

subsection \<open>\<^verbatim>\<open>_handshake\<close>\<close>

definition handshake_timeout :: "UserValves \<Rightarrow> int" where
  "handshake_timeout uv = max 30 (REQUEST_TIMEOUT uv div 4)"

definition init_payload :: "Tools \<Rightarrow> json" where
  "init_payload self =
     json_rpc_payload ''initialize''
       (Some (JObj
          [(''protocolVersion'', JStr (protocol_version self)),
           (''capabilities'',
              JObj [(''roots'', JObj [(''listChanged'', JBool True)]), (''sampling'', JObj [])]),
           (''clientInfo'',
              JObj [(''name'', JStr (client_name self)),
                    (''version'', JStr (client_version self))])]))
       1"

definition notify_payload :: json where
  "notify_payload =
     JObj [(''jsonrpc'', JStr ''2.0''), (''method'', JStr ''notifications/initialized'')]"

definition initialize_request :: "Tools \<Rightarrow> UserValves \<Rightarrow> request" where
  "initialize_request self uv =
     \<lparr>url = MCP_SERVER_URL (valves self),
      headers = get_headers self uv None,
      payload = init_payload self,
      timeout = handshake_timeout uv\<rparr>"

definition notify_request :: "Tools \<Rightarrow> UserValves \<Rightarrow> string option \<Rightarrow> request" where
  "notify_request self uv session_id =
     \<lparr>url = MCP_SERVER_URL (valves self),
      headers = get_headers self uv session_id,
      payload = notify_payload,
      timeout = 10\<rparr>"

text \<open>
  The result is the session identifier (\<^verbatim>\<open>None\<close> when the response has no such
  header) or the exception that leaves \<^verbatim>\<open>_handshake\<close>.
\<close>

definition handshake ::
  "Tools \<Rightarrow> network \<Rightarrow> UserValves \<Rightarrow> request list
     \<Rightarrow> (exn + string option) \<times> request list" where
  "handshake self net uv sent =
     (case post net (initialize_request self uv) sent of
        (Failed e, sent1) \<Rightarrow> (Inl e, sent1)
      | (Responded r, sent1) \<Rightarrow>
          if status_code r \<noteq> 200
          then (Inl (Exn PlainException
                       (''HTTP '' @ show_int (status_code r) @ '': '' @ body_text r)), sent1)
          else
            (let session_id = session_id_header r in
             case body r of
               Inl e \<Rightarrow> (Inl e, sent1)
             | Inr data \<Rightarrow>
                 (case py_in ''error'' data of
                    Inl e \<Rightarrow> (Inl e, sent1)
                  | Inr True \<Rightarrow>
                      (case py_getitem data ''error'' of
                         Inl e \<Rightarrow> (Inl e, sent1)
                       | Inr err \<Rightarrow>
                           (Inl (Exn PlainException (''MCP Error: '' @ py_str err)), sent1))
                  | Inr False \<Rightarrow>
                      (case post net (notify_request self uv session_id) sent1 of
                         (Failed e, sent2) \<Rightarrow> (Inl e, sent2)
                       | (Responded r2, sent2) \<Rightarrow> (Inr session_id, sent2)))))"

subsection \<open>The write tools and the read-only message\<close>

definition write_tools :: "string list" where
  "write_tools =
     [''jira_create_issue'', ''jira_update_issue'', ''jira_delete_issue'',
      ''jira_batch_create_issues'', ''jira_add_comment'', ''jira_transition_issue'',
      ''jira_add_worklog'', ''jira_link_to_epic'', ''jira_create_sprint'',
      ''jira_update_sprint'', ''jira_create_issue_link'', ''jira_remove_issue_link'',
      ''jira_create_version'', ''jira_batch_create_versions'',
      ''jira_create_remote_issue_link'']"

definition is_write_tool :: "string \<Rightarrow> bool" where
  "is_write_tool tool_name = (tool_name \<in> set write_tools)"

text \<open>
  The message starts with four characters above ASCII, the code points \<open>0xF0\<close>,
  \<open>0x178\<close>, \<open>0x201D\<close> and \<open>0x2019\<close> of the source file's literal.
\<close>

definition read_only_message :: "string \<Rightarrow> unicode" where
  "read_only_message operation =
     [0xF0, 0x178, 0x201D, 0x2019]
     @ unicode_of
         ('' **Read-Only Mode Active**'' @ [CHR 0x0A, CHR 0x0A]
          @ ''I cannot '' @ operation
          @ '' because the Jira integration is currently in read-only mode. This is a safety setting configured by your administrator.''
          @ [CHR 0x0A, CHR 0x0A]
          @ ''If you need to perform this action, please:'' @ [CHR 0x0A]
          @ ''1. Contact your administrator to enable write access, or'' @ [CHR 0x0A]
          @ ''2. Perform this action directly in Jira'')"

section \<open>The tool invoker\<close>

subsection \<open>\<^verbatim>\<open>_call_tool\<close>\<close>

definition not_configured :: string where
  "not_configured =
     json_dumps (JObj
       [(''error'', JStr ''Jira PAT not configured''),
        (''message'',
           JStr ''Please configure your Jira Personal Access Token in User Settings'')])"

definition error_payload :: "json \<Rightarrow> string" where
  "error_payload msg = json_dumps (JObj [(''error'', msg)])"

text \<open>
  The loop over \<^verbatim>\<open>content\<close>: \<open>text_results\<close> grows at its end; an item that is
  not a dictionary raises at \<^verbatim>\<open>item.get\<close>. The second \<^verbatim>\<open>item.get("type")\<close>
  of the source returns what the first one returned, so \<open>ty\<close> stands for both.
\<close>

fun content_loop :: "json list \<Rightarrow> json list \<Rightarrow> exn + json list" where
  "content_loop [] text_results = Inr text_results"
| "content_loop (item # rest) text_results =
     (case py_get item ''type'' JNull of
        Inl e \<Rightarrow> Inl e
      | Inr ty \<Rightarrow>
          if ty = JStr ''text''
          then (case py_get item ''text'' (JStr []) of
                  Inl e \<Rightarrow> Inl e
                | Inr t \<Rightarrow> content_loop rest (text_results @ [t]))
          else if ty = JStr ''resource''
          then (case py_get item ''resource'' (JObj []) of
                  Inl e \<Rightarrow> Inl e
                | Inr resource \<Rightarrow>
                    (case py_get resource ''uri'' (JStr ''unknown'') of
                       Inl e \<Rightarrow> Inl e
                     | Inr uri \<Rightarrow>
                         content_loop rest
                           (text_results @ [JStr (''[Resource: '' @ py_str uri @ '']'')])))
          else content_loop rest text_results)"

text \<open>What \<^verbatim>\<open>_call_tool\<close> makes of the decoded body of a response with status 200.\<close>

definition call_result :: "json \<Rightarrow> exn + string" where
  "call_result data =
     (case py_in ''error'' data of
        Inl e \<Rightarrow> Inl e
      | Inr True \<Rightarrow>
          (case py_getitem data ''error'' of
             Inl e \<Rightarrow> Inl e
           | Inr err \<Rightarrow>
               (let err_msg =
                      (case err of
                         JObj kvs \<Rightarrow>
                           (case map_of kvs ''message'' of
                              None \<Rightarrow> JStr (py_str err)
                            | Some m \<Rightarrow> m)
                       | _ \<Rightarrow> JStr (py_str err))
                in Inr (error_payload err_msg)))
      | Inr False \<Rightarrow>
          (case py_get data ''result'' (JObj []) of
             Inl e \<Rightarrow> Inl e
           | Inr res \<Rightarrow>
               (case py_get res ''content'' (JArr []) of
                  Inl e \<Rightarrow> Inl e
                | Inr content \<Rightarrow>
                    (case py_iter content of
                       Inl e \<Rightarrow> Inl e
                     | Inr items \<Rightarrow>
                         (case content_loop items [] of
                            Inl e \<Rightarrow> Inl e
                          | Inr text_results \<Rightarrow>
                              if text_results \<noteq> []
                              then py_join [CHR 0x0A] text_results
                              else Inr (json_dumps data))))))"

definition call_request :: "Tools \<Rightarrow> UserValves \<Rightarrow> string option \<Rightarrow> string \<Rightarrow> json \<Rightarrow> request" where
  "call_request self uv session_id tool_name arguments =
     \<lparr>url = MCP_SERVER_URL (valves self),
      headers = get_headers self uv session_id,
      payload = json_rpc_payload ''tools/call''
                  (Some (JObj [(''name'', JStr tool_name), (''arguments'', arguments)])) 3,
      timeout = REQUEST_TIMEOUT uv\<rparr>"

text \<open>The body of the \<^verbatim>\<open>try\<close> statement: a string returned, or an exception raised.\<close>

definition call_tool_try ::
  "Tools \<Rightarrow> network \<Rightarrow> string \<Rightarrow> json \<Rightarrow> UserValves \<Rightarrow> request list
     \<Rightarrow> (exn + string) \<times> request list" where
  "call_tool_try self net tool_name arguments uv sent =
     (case handshake self net uv sent of
        (Inl e, sent1) \<Rightarrow> (Inl e, sent1)
      | (Inr session_id, sent1) \<Rightarrow>
          (case post net (call_request self uv session_id tool_name arguments) sent1 of
             (Failed e, sent2) \<Rightarrow> (Inl e, sent2)
           | (Responded r, sent2) \<Rightarrow>
               if status_code r \<noteq> 200
               then (Inr (error_payload
                            (JStr (''HTTP '' @ show_int (status_code r) @ '': '' @ body_text r))),
                     sent2)
               else (case body r of
                       Inl e \<Rightarrow> (Inl e, sent2)
                     | Inr data \<Rightarrow> (call_result data, sent2))))"

text \<open>
  \<^verbatim>\<open>_call_tool\<close>: the check of the token, the \<^verbatim>\<open>try\<close> statement and its two
  \<^verbatim>\<open>except\<close> clauses. \<open>Inl\<close> would be an exception that leaves the method.
\<close>

definition call_tool ::
  "Tools \<Rightarrow> network \<Rightarrow> string \<Rightarrow> json \<Rightarrow> UserValves \<Rightarrow> request list
     \<Rightarrow> (exn + unicode) \<times> request list" where
  "call_tool self net tool_name arguments uv sent =
     (if JIRA_PAT uv = [] then (Inr (unicode_of not_configured), sent)
      else (case call_tool_try self net tool_name arguments uv sent of
              (Inr s, sent') \<Rightarrow> (Inr (unicode_of s), sent')
            | (Inl e, sent') \<Rightarrow>
                if exn_class_of e = Timeout
                then (Inr (unicode_of (error_payload
                             (JStr (''Request timeout after '' @ show_int (REQUEST_TIMEOUT uv)
                                    @ ''s - try increasing REQUEST_TIMEOUT in user settings'')))),
                      sent')
                else (Inr (unicode_of (error_payload (JStr (exn_str e)))), sent')))"

subsection \<open>\<^verbatim>\<open>discover_jira_tools\<close>\<close>

definition enabled_list :: "Tools \<Rightarrow> string list" where
  "enabled_list self =
     map strip (filter (\<lambda>t. strip t \<noteq> []) (split_on CHR '','' (ENABLED_TOOLS (valves self))))"

text \<open>
  The loop over \<^verbatim>\<open>tools\<close>, with its three \<^verbatim>\<open>continue\<close> statements. A name
  that is not a string has no \<^verbatim>\<open>startswith\<close>.
\<close>

fun tools_loop :: "Tools \<Rightarrow> string list \<Rightarrow> json list \<Rightarrow> json list \<Rightarrow> exn + json list" where
  "tools_loop self enabled [] jira_tools = Inr jira_tools"
| "tools_loop self enabled (tool # rest) jira_tools =
     (case py_get tool ''name'' (JStr []) of
        Inl e \<Rightarrow> Inl e
      | Inr (JStr name) \<Rightarrow>
          if \<not> startswith name ''jira_'' then tools_loop self enabled rest jira_tools
          else if enabled \<noteq> [] \<and> name \<notin> set enabled then tools_loop self enabled rest jira_tools
          else if READ_ONLY_MODE (valves self) \<and> is_write_tool name
            then tools_loop self enabled rest jira_tools
          else (case py_get tool ''description'' (JStr []) of
                  Inl e \<Rightarrow> Inl e
                | Inr description \<Rightarrow>
                    (case py_get tool ''inputSchema'' (JObj []) of
                       Inl e \<Rightarrow> Inl e
                     | Inr schema \<Rightarrow>
                         tools_loop self enabled rest
                           (jira_tools @
                              [JObj [(''name'', JStr name),
                                     (''description'', description),
                                     (''input_schema'', schema)]])))
      | Inr other \<Rightarrow> Inl (no_attribute other ''startswith''))"

text \<open>What discovery makes of the decoded body of a response with status 200.\<close>

definition list_result :: "Tools \<Rightarrow> json \<Rightarrow> exn + string" where
  "list_result self result =
     (case py_in ''error'' result of
        Inl e \<Rightarrow> Inl e
      | Inr True \<Rightarrow>
          (case py_getitem result ''error'' of
             Inl e \<Rightarrow> Inl e
           | Inr err \<Rightarrow> Inr (error_payload err))
      | Inr False \<Rightarrow>
          (case py_get result ''result'' (JObj []) of
             Inl e \<Rightarrow> Inl e
           | Inr res \<Rightarrow>
               (case py_get res ''tools'' (JArr []) of
                  Inl e \<Rightarrow> Inl e
                | Inr tools \<Rightarrow>
                    (case py_iter tools of
                       Inl e \<Rightarrow> Inl e
                     | Inr ts \<Rightarrow>
                         (case tools_loop self (enabled_list self) ts [] of
                            Inl e \<Rightarrow> Inl e
                          | Inr jira_tools \<Rightarrow> Inr (json_dumps_indent2 (JArr jira_tools)))))))"

definition list_request :: "Tools \<Rightarrow> UserValves \<Rightarrow> string option \<Rightarrow> request" where
  "list_request self uv session_id =
     \<lparr>url = MCP_SERVER_URL (valves self),
      headers = get_headers self uv session_id,
      payload = json_rpc_payload ''tools/list'' (Some (JObj [])) 2,
      timeout = 60\<rparr>"

definition discover_try ::
  "Tools \<Rightarrow> network \<Rightarrow> UserValves \<Rightarrow> request list \<Rightarrow> (exn + string) \<times> request list" where
  "discover_try self net uv sent =
     (case handshake self net uv sent of
        (Inl e, sent1) \<Rightarrow> (Inl e, sent1)
      | (Inr session_id, sent1) \<Rightarrow>
          (case post net (list_request self uv session_id) sent1 of
             (Failed e, sent2) \<Rightarrow> (Inl e, sent2)
           | (Responded r, sent2) \<Rightarrow>
               if status_code r \<noteq> 200
               then (Inr (error_payload
                            (JStr (''HTTP '' @ show_int (status_code r) @ '': '' @ body_text r))),
                     sent2)
               else (case body r of
                       Inl e \<Rightarrow> (Inl e, sent2)
                     | Inr result \<Rightarrow> (list_result self result, sent2))))"

definition discover_jira_tools ::
  "Tools \<Rightarrow> network \<Rightarrow> caller_context \<Rightarrow> request list
     \<Rightarrow> (exn + unicode) \<times> request list" where
  "discover_jira_tools self net user sent =
     (case get_user_valves self user of
        Inl e \<Rightarrow> (Inl e, sent)
      | Inr uv \<Rightarrow>
          if JIRA_PAT uv = [] then (Inr (unicode_of not_configured), sent)
          else (case discover_try self net uv sent of
                  (Inr s, sent') \<Rightarrow> (Inr (unicode_of s), sent')
                | (Inl e, sent') \<Rightarrow>
                    (Inr (unicode_of
                            (error_payload (JStr (''Discovery failed: '' @ exn_str e)))),
                     sent')))"

section \<open>The public operations\<close>

text \<open>
  Each operation takes \<^verbatim>\<open>self\<close>, the network, its own parameters, the caller's
  context \<^verbatim>\<open>__user__\<close> and the requests sent so far; it gives the string it
  returns, or the exception that reaches the host, and the requests sent.
\<close>

type_synonym outcome_of_operation = "(exn + unicode) \<times> request list"

subsection \<open>Search and read\<close>

definition jira_search ::
  "Tools \<Rightarrow> network \<Rightarrow> string \<Rightarrow> int
     \<Rightarrow> string \<Rightarrow> caller_context \<Rightarrow> request list
     \<Rightarrow> outcome_of_operation" where
  "jira_search self net jql max_results fields' user sent =
     (case get_user_valves self user of
        Inl e \<Rightarrow> (Inl e, sent)
      | Inr uv \<Rightarrow>
          call_tool self net ''jira_search''
            (JObj ([(''jql'', JStr jql), (''limit'', JInt max_results)]
          @ (if fields' \<noteq> [] then [(''fields'', JStr fields')] else [])))
            uv sent)"

definition jira_get_issue ::
  "Tools \<Rightarrow> network \<Rightarrow> string \<Rightarrow> string
     \<Rightarrow> caller_context \<Rightarrow> request list
     \<Rightarrow> outcome_of_operation" where
  "jira_get_issue self net issue_key expand user sent =
     (case get_user_valves self user of
        Inl e \<Rightarrow> (Inl e, sent)
      | Inr uv \<Rightarrow>
          call_tool self net ''jira_get_issue''
            (JObj ([(''issue_key'', JStr issue_key)]
          @ (if expand \<noteq> [] then [(''expand'', JStr expand)] else [])))
            uv sent)"

definition jira_get_all_projects ::
  "Tools \<Rightarrow> network \<Rightarrow> caller_context \<Rightarrow> request list
     \<Rightarrow> outcome_of_operation" where
  "jira_get_all_projects self net user sent =
     (case get_user_valves self user of
        Inl e \<Rightarrow> (Inl e, sent)
      | Inr uv \<Rightarrow>
          call_tool self net ''jira_get_all_projects''
            (JObj [])
            uv sent)"

definition jira_get_project_issues ::
  "Tools \<Rightarrow> network \<Rightarrow> string \<Rightarrow> int
     \<Rightarrow> caller_context \<Rightarrow> request list
     \<Rightarrow> outcome_of_operation" where
  "jira_get_project_issues self net project_key max_results user sent =
     (case get_user_valves self user of
        Inl e \<Rightarrow> (Inl e, sent)
      | Inr uv \<Rightarrow>
          call_tool self net ''jira_get_project_issues''
            (JObj [(''project_key'', JStr project_key), (''limit'', JInt max_results)])
            uv sent)"

definition jira_get_transitions ::
  "Tools \<Rightarrow> network \<Rightarrow> string \<Rightarrow> caller_context
     \<Rightarrow> request list
     \<Rightarrow> outcome_of_operation" where
  "jira_get_transitions self net issue_key user sent =
     (case get_user_valves self user of
        Inl e \<Rightarrow> (Inl e, sent)
      | Inr uv \<Rightarrow>
          call_tool self net ''jira_get_transitions''
            (JObj [(''issue_key'', JStr issue_key)])
            uv sent)"

definition jira_get_agile_boards ::
  "Tools \<Rightarrow> network \<Rightarrow> string \<Rightarrow> caller_context
     \<Rightarrow> request list
     \<Rightarrow> outcome_of_operation" where
  "jira_get_agile_boards self net project_key user sent =
     (case get_user_valves self user of
        Inl e \<Rightarrow> (Inl e, sent)
      | Inr uv \<Rightarrow>
          call_tool self net ''jira_get_agile_boards''
            (JObj (if project_key \<noteq> [] then [(''project_key'', JStr project_key)] else []))
            uv sent)"

definition jira_get_sprints_from_board ::
  "Tools \<Rightarrow> network \<Rightarrow> string \<Rightarrow> string
     \<Rightarrow> caller_context \<Rightarrow> request list
     \<Rightarrow> outcome_of_operation" where
  "jira_get_sprints_from_board self net board_id state user sent =
     (case get_user_valves self user of
        Inl e \<Rightarrow> (Inl e, sent)
      | Inr uv \<Rightarrow>
          call_tool self net ''jira_get_sprints_from_board''
            (JObj ([(''board_id'', JStr board_id)]
          @ (if state \<noteq> [] then [(''state'', JStr state)] else [])))
            uv sent)"

definition jira_get_sprint_issues ::
  "Tools \<Rightarrow> network \<Rightarrow> string \<Rightarrow> caller_context
     \<Rightarrow> request list
     \<Rightarrow> outcome_of_operation" where
  "jira_get_sprint_issues self net sprint_id user sent =
     (case get_user_valves self user of
        Inl e \<Rightarrow> (Inl e, sent)
      | Inr uv \<Rightarrow>
          call_tool self net ''jira_get_sprint_issues''
            (JObj [(''sprint_id'', JStr sprint_id)])
            uv sent)"

definition jira_get_worklog ::
  "Tools \<Rightarrow> network \<Rightarrow> string \<Rightarrow> caller_context
     \<Rightarrow> request list
     \<Rightarrow> outcome_of_operation" where
  "jira_get_worklog self net issue_key user sent =
     (case get_user_valves self user of
        Inl e \<Rightarrow> (Inl e, sent)
      | Inr uv \<Rightarrow>
          call_tool self net ''jira_get_worklog''
            (JObj [(''issue_key'', JStr issue_key)])
            uv sent)"

definition jira_get_user_profile ::
  "Tools \<Rightarrow> network \<Rightarrow> string \<Rightarrow> caller_context
     \<Rightarrow> request list
     \<Rightarrow> outcome_of_operation" where
  "jira_get_user_profile self net user_identifier user sent =
     (case get_user_valves self user of
        Inl e \<Rightarrow> (Inl e, sent)
      | Inr uv \<Rightarrow>
          call_tool self net ''jira_get_user_profile''
            (JObj [(''user_identifier'', JStr user_identifier)])
            uv sent)"

definition jira_search_fields ::
  "Tools \<Rightarrow> network \<Rightarrow> string \<Rightarrow> int
     \<Rightarrow> caller_context \<Rightarrow> request list
     \<Rightarrow> outcome_of_operation" where
  "jira_search_fields self net keyword limit user sent =
     (case get_user_valves self user of
        Inl e \<Rightarrow> (Inl e, sent)
      | Inr uv \<Rightarrow>
          call_tool self net ''jira_search_fields''
            (JObj [(''keyword'', JStr keyword), (''limit'', JInt limit)])
            uv sent)"

definition jira_get_project_versions ::
  "Tools \<Rightarrow> network \<Rightarrow> string \<Rightarrow> caller_context
     \<Rightarrow> request list
     \<Rightarrow> outcome_of_operation" where
  "jira_get_project_versions self net project_key user sent =
     (case get_user_valves self user of
        Inl e \<Rightarrow> (Inl e, sent)
      | Inr uv \<Rightarrow>
          call_tool self net ''jira_get_project_versions''
            (JObj [(''project_key'', JStr project_key)])
            uv sent)"

definition jira_get_board_issues ::
  "Tools \<Rightarrow> network \<Rightarrow> string \<Rightarrow> string
     \<Rightarrow> int \<Rightarrow> caller_context \<Rightarrow> request list
     \<Rightarrow> outcome_of_operation" where
  "jira_get_board_issues self net board_id jql max_results user sent =
     (case get_user_valves self user of
        Inl e \<Rightarrow> (Inl e, sent)
      | Inr uv \<Rightarrow>
          call_tool self net ''jira_get_board_issues''
            (JObj [(''board_id'', JStr board_id), (''jql'', JStr (if jql \<noteq> [] then jql else ''order by rank'')), (''limit'', JInt max_results)])
            uv sent)"

definition jira_get_link_types ::
  "Tools \<Rightarrow> network \<Rightarrow> caller_context \<Rightarrow> request list
     \<Rightarrow> outcome_of_operation" where
  "jira_get_link_types self net user sent =
     (case get_user_valves self user of
        Inl e \<Rightarrow> (Inl e, sent)
      | Inr uv \<Rightarrow>
          call_tool self net ''jira_get_link_types''
            (JObj [])
            uv sent)"

subsection \<open>Write operations\<close>

definition jira_create_issue ::
  "Tools \<Rightarrow> network \<Rightarrow> string \<Rightarrow> string
     \<Rightarrow> string \<Rightarrow> string \<Rightarrow> string \<Rightarrow> string \<Rightarrow> string \<Rightarrow> caller_context \<Rightarrow> request list
     \<Rightarrow> outcome_of_operation" where
  "jira_create_issue self net project_key summary issue_type description assignee priority labels user sent =
     (if READ_ONLY_MODE (valves self)
      then (Inr (read_only_message ''create a new Jira issue''), sent)
      else (case get_user_valves self user of
          Inl e \<Rightarrow> (Inl e, sent)
        | Inr uv \<Rightarrow>
            call_tool self net ''jira_create_issue''
              (JObj ([(''project_key'', JStr project_key), (''summary'', JStr summary), (''issue_type'', JStr issue_type)]
            @ (if description \<noteq> [] then [(''description'', JStr description)] else [])
            @ (if assignee \<noteq> [] then [(''assignee'', JStr assignee)] else [])
            @ (if priority \<noteq> [] then [(''priority'', JStr priority)] else [])
            @ (if labels \<noteq> [] then [(''labels'', JStr labels)] else [])))
              uv sent))"

definition jira_update_issue ::
  "Tools \<Rightarrow> network \<Rightarrow> string \<Rightarrow> string
     \<Rightarrow> string \<Rightarrow> string \<Rightarrow> string \<Rightarrow> string \<Rightarrow> caller_context \<Rightarrow> request list
     \<Rightarrow> outcome_of_operation" where
  "jira_update_issue self net issue_key summary description assignee priority labels user sent =
     (if READ_ONLY_MODE (valves self)
      then (Inr (read_only_message (''update issue '' @ issue_key)), sent)
      else (case get_user_valves self user of
          Inl e \<Rightarrow> (Inl e, sent)
        | Inr uv \<Rightarrow>
            call_tool self net ''jira_update_issue''
              (JObj [(''issue_key'', JStr issue_key),
                  (''fields'', JObj
                     ((if summary \<noteq> [] then [(''summary'', JStr summary)] else [])
                      @ (if description \<noteq> [] then [(''description'', JStr description)] else [])
                      @ (if assignee \<noteq> [] then [(''assignee'', JStr assignee)] else [])
                      @ (if priority \<noteq> [] then [(''priority'', JObj [(''name'', JStr priority)])] else [])
                      @ (if labels \<noteq> []
                         then [(''labels'', JArr (map (\<lambda>l. JStr (strip l)) (split_on CHR '','' labels)))]
                         else [])))])
              uv sent))"

definition jira_transition_issue ::
  "Tools \<Rightarrow> network \<Rightarrow> string \<Rightarrow> string
     \<Rightarrow> string \<Rightarrow> caller_context \<Rightarrow> request list
     \<Rightarrow> outcome_of_operation" where
  "jira_transition_issue self net issue_key transition_id comment user sent =
     (if READ_ONLY_MODE (valves self)
      then (Inr (read_only_message (''transition issue '' @ issue_key)), sent)
      else (case get_user_valves self user of
          Inl e \<Rightarrow> (Inl e, sent)
        | Inr uv \<Rightarrow>
            call_tool self net ''jira_transition_issue''
              (JObj ([(''issue_key'', JStr issue_key), (''transition_id'', JStr transition_id)]
            @ (if comment \<noteq> [] then [(''comment'', JStr comment)] else [])))
              uv sent))"

definition jira_add_comment ::
  "Tools \<Rightarrow> network \<Rightarrow> string \<Rightarrow> string
     \<Rightarrow> caller_context \<Rightarrow> request list
     \<Rightarrow> outcome_of_operation" where
  "jira_add_comment self net issue_key comment user sent =
     (if READ_ONLY_MODE (valves self)
      then (Inr (read_only_message (''add a comment to issue '' @ issue_key)), sent)
      else (case get_user_valves self user of
          Inl e \<Rightarrow> (Inl e, sent)
        | Inr uv \<Rightarrow>
            call_tool self net ''jira_add_comment''
              (JObj [(''issue_key'', JStr issue_key), (''comment'', JStr comment)])
              uv sent))"

definition jira_add_worklog ::
  "Tools \<Rightarrow> network \<Rightarrow> string \<Rightarrow> string
     \<Rightarrow> string \<Rightarrow> string \<Rightarrow> caller_context \<Rightarrow> request list
     \<Rightarrow> outcome_of_operation" where
  "jira_add_worklog self net issue_key time_spent comment started user sent =
     (if READ_ONLY_MODE (valves self)
      then (Inr (read_only_message (''add a worklog to issue '' @ issue_key)), sent)
      else (case get_user_valves self user of
          Inl e \<Rightarrow> (Inl e, sent)
        | Inr uv \<Rightarrow>
            call_tool self net ''jira_add_worklog''
              (JObj ([(''issue_key'', JStr issue_key), (''time_spent'', JStr time_spent)]
            @ (if comment \<noteq> [] then [(''comment'', JStr comment)] else [])
            @ (if started \<noteq> [] then [(''started'', JStr started)] else [])))
              uv sent))"

definition jira_link_to_epic ::
  "Tools \<Rightarrow> network \<Rightarrow> string \<Rightarrow> string
     \<Rightarrow> caller_context \<Rightarrow> request list
     \<Rightarrow> outcome_of_operation" where
  "jira_link_to_epic self net issue_key epic_key user sent =
     (if READ_ONLY_MODE (valves self)
      then (Inr (read_only_message (''link issue '' @ issue_key @ '' to epic '' @ epic_key)), sent)
      else (case get_user_valves self user of
          Inl e \<Rightarrow> (Inl e, sent)
        | Inr uv \<Rightarrow>
            call_tool self net ''jira_link_to_epic''
              (JObj [(''issue_key'', JStr issue_key), (''epic_key'', JStr epic_key)])
              uv sent))"

definition jira_create_issue_link ::
  "Tools \<Rightarrow> network \<Rightarrow> string \<Rightarrow> string
     \<Rightarrow> string \<Rightarrow> string \<Rightarrow> caller_context \<Rightarrow> request list
     \<Rightarrow> outcome_of_operation" where
  "jira_create_issue_link self net link_type inward_issue_key outward_issue_key comment user sent =
     (if READ_ONLY_MODE (valves self)
      then (Inr (read_only_message (''create a link between '' @ inward_issue_key @ '' and '' @ outward_issue_key)), sent)
      else (case get_user_valves self user of
          Inl e \<Rightarrow> (Inl e, sent)
        | Inr uv \<Rightarrow>
            call_tool self net ''jira_create_issue_link''
              (JObj ([(''link_type'', JStr link_type), (''inward_issue_key'', JStr inward_issue_key), (''outward_issue_key'', JStr outward_issue_key)]
            @ (if comment \<noteq> [] then [(''comment'', JStr comment)] else [])))
              uv sent))"

definition jira_delete_issue ::
  "Tools \<Rightarrow> network \<Rightarrow> string \<Rightarrow> caller_context
     \<Rightarrow> request list
     \<Rightarrow> outcome_of_operation" where
  "jira_delete_issue self net issue_key user sent =
     (if READ_ONLY_MODE (valves self)
      then (Inr (read_only_message (''delete issue '' @ issue_key)), sent)
      else (case get_user_valves self user of
          Inl e \<Rightarrow> (Inl e, sent)
        | Inr uv \<Rightarrow>
            call_tool self net ''jira_delete_issue''
              (JObj [(''issue_key'', JStr issue_key)])
              uv sent))"

subsection \<open>The generic tool call\<close>

text \<open>
  \<^verbatim>\<open>call_mcp_tool\<close> takes its arguments as a string and hands it to
  \<^verbatim>\<open>json.loads\<close>. The parser belongs to the library; an argument string comes
  here with what the parser makes of it: the value it decodes to, the message of
  the \<^verbatim>\<open>JSONDecodeError\<close> it raises, or another exception that it raises
  (\<^verbatim>\<open>RecursionError\<close> on brackets nested too deep, \<^verbatim>\<open>ValueError\<close> on an
  integer of more digits than the interpreter converts).
\<close>

datatype json_text =
    Decodes string json
  | Malformed string string
  | ParserFault string exn

fun json_loads :: "json_text \<Rightarrow> exn + json" where
  "json_loads (Decodes s v) = Inr v"
| "json_loads (Malformed s msg) = Inl (Exn JSONDecodeError msg)"
| "json_loads (ParserFault s e) = Inl e"

text \<open>
  The \<^verbatim>\<open>except\<close> clause around \<^verbatim>\<open>json.loads\<close> names
  \<^verbatim>\<open>json.JSONDecodeError\<close> only; any other exception of the parser leaves the
  method.
\<close>

definition call_mcp_tool ::
  "Tools \<Rightarrow> network \<Rightarrow> string \<Rightarrow> json_text \<Rightarrow> caller_context \<Rightarrow> request list
     \<Rightarrow> outcome_of_operation" where
  "call_mcp_tool self net tool_name arguments user sent =
     (if READ_ONLY_MODE (valves self) \<and> is_write_tool tool_name
      then (Inr (read_only_message (''execute '' @ quoted tool_name)), sent)
      else (case get_user_valves self user of
              Inl e \<Rightarrow> (Inl e, sent)
            | Inr uv \<Rightarrow>
                (case json_loads arguments of
                   Inl e \<Rightarrow>
                     if exn_class_of e = JSONDecodeError
                     then (Inr (unicode_of
                                  (error_payload
                                     (JStr (''Invalid JSON arguments: '' @ exn_str e)))),
                           sent)
                     else (Inl e, sent)
                 | Inr args_dict \<Rightarrow> call_tool self net tool_name args_dict uv sent)))"

subsection \<open>All operations of the class\<close>

text \<open>One constructor for each public method, with the method's parameters in order.\<close>

datatype operation =
    DiscoverJiraTools
  | JiraSearch string int string
  | JiraGetIssue string string
  | JiraGetAllProjects
  | JiraGetProjectIssues string int
  | JiraGetTransitions string
  | JiraGetAgileBoards string
  | JiraGetSprintsFromBoard string string
  | JiraGetSprintIssues string
  | JiraGetWorklog string
  | JiraGetUserProfile string
  | JiraSearchFields string int
  | JiraGetProjectVersions string
  | JiraGetBoardIssues string string int
  | JiraGetLinkTypes
  | JiraCreateIssue string string string string string string string
  | JiraUpdateIssue string string string string string string
  | JiraTransitionIssue string string string
  | JiraAddComment string string
  | JiraAddWorklog string string string string
  | JiraLinkToEpic string string
  | JiraCreateIssueLink string string string string
  | JiraDeleteIssue string
  | CallMcpTool string json_text

fun invoke ::
  "Tools \<Rightarrow> network \<Rightarrow> operation \<Rightarrow> caller_context \<Rightarrow> request list
     \<Rightarrow> outcome_of_operation" where
  "invoke self net DiscoverJiraTools user sent = discover_jira_tools self net user sent"
| "invoke self net (JiraSearch a b c) user sent = jira_search self net a b c user sent"
| "invoke self net (JiraGetIssue a b) user sent = jira_get_issue self net a b user sent"
| "invoke self net JiraGetAllProjects user sent = jira_get_all_projects self net user sent"
| "invoke self net (JiraGetProjectIssues a b) user sent =
     jira_get_project_issues self net a b user sent"
| "invoke self net (JiraGetTransitions a) user sent = jira_get_transitions self net a user sent"
| "invoke self net (JiraGetAgileBoards a) user sent = jira_get_agile_boards self net a user sent"
| "invoke self net (JiraGetSprintsFromBoard a b) user sent =
     jira_get_sprints_from_board self net a b user sent"
| "invoke self net (JiraGetSprintIssues a) user sent =
     jira_get_sprint_issues self net a user sent"
| "invoke self net (JiraGetWorklog a) user sent = jira_get_worklog self net a user sent"
| "invoke self net (JiraGetUserProfile a) user sent = jira_get_user_profile self net a user sent"
| "invoke self net (JiraSearchFields a b) user sent = jira_search_fields self net a b user sent"
| "invoke self net (JiraGetProjectVersions a) user sent =
     jira_get_project_versions self net a user sent"
| "invoke self net (JiraGetBoardIssues a b c) user sent =
     jira_get_board_issues self net a b c user sent"
| "invoke self net JiraGetLinkTypes user sent = jira_get_link_types self net user sent"
| "invoke self net (JiraCreateIssue a b c d e f g) user sent =
     jira_create_issue self net a b c d e f g user sent"
| "invoke self net (JiraUpdateIssue a b c d e f) user sent =
     jira_update_issue self net a b c d e f user sent"
| "invoke self net (JiraTransitionIssue a b c) user sent =
     jira_transition_issue self net a b c user sent"
| "invoke self net (JiraAddComment a b) user sent = jira_add_comment self net a b user sent"
| "invoke self net (JiraAddWorklog a b c d) user sent =
     jira_add_worklog self net a b c d user sent"
| "invoke self net (JiraLinkToEpic a b) user sent = jira_link_to_epic self net a b user sent"
| "invoke self net (JiraCreateIssueLink a b c d) user sent =
     jira_create_issue_link self net a b c d user sent"
| "invoke self net (JiraDeleteIssue a) user sent = jira_delete_issue self net a user sent"
| "invoke self net (CallMcpTool a b) user sent = call_mcp_tool self net a b user sent"

text \<open>
  The tool name that an operation gives to \<^verbatim>\<open>_call_tool\<close>: the literal in the
  method's body, or the caller's \<^verbatim>\<open>tool_name\<close> for the generic call. Discovery
  calls no tool.
\<close>

fun tool_called :: "operation \<Rightarrow> string option" where
  "tool_called DiscoverJiraTools = None"
| "tool_called (JiraSearch a b c) = Some ''jira_search''"
| "tool_called (JiraGetIssue a b) = Some ''jira_get_issue''"
| "tool_called JiraGetAllProjects = Some ''jira_get_all_projects''"
| "tool_called (JiraGetProjectIssues a b) = Some ''jira_get_project_issues''"
| "tool_called (JiraGetTransitions a) = Some ''jira_get_transitions''"
| "tool_called (JiraGetAgileBoards a) = Some ''jira_get_agile_boards''"
| "tool_called (JiraGetSprintsFromBoard a b) = Some ''jira_get_sprints_from_board''"
| "tool_called (JiraGetSprintIssues a) = Some ''jira_get_sprint_issues''"
| "tool_called (JiraGetWorklog a) = Some ''jira_get_worklog''"
| "tool_called (JiraGetUserProfile a) = Some ''jira_get_user_profile''"
| "tool_called (JiraSearchFields a b) = Some ''jira_search_fields''"
| "tool_called (JiraGetProjectVersions a) = Some ''jira_get_project_versions''"
| "tool_called (JiraGetBoardIssues a b c) = Some ''jira_get_board_issues''"
| "tool_called JiraGetLinkTypes = Some ''jira_get_link_types''"
| "tool_called (JiraCreateIssue a b c d e f g) = Some ''jira_create_issue''"
| "tool_called (JiraUpdateIssue a b c d e f) = Some ''jira_update_issue''"
| "tool_called (JiraTransitionIssue a b c) = Some ''jira_transition_issue''"
| "tool_called (JiraAddComment a b) = Some ''jira_add_comment''"
| "tool_called (JiraAddWorklog a b c d) = Some ''jira_add_worklog''"
| "tool_called (JiraLinkToEpic a b) = Some ''jira_link_to_epic''"
| "tool_called (JiraCreateIssueLink a b c d) = Some ''jira_create_issue_link''"
| "tool_called (JiraDeleteIssue a) = Some ''jira_delete_issue''"
| "tool_called (CallMcpTool a b) = Some a"

text \<open>Whether the operation is for a tool of the write set.\<close>

definition calls_write_tool :: "operation \<Rightarrow> bool" where
  "calls_write_tool op = (case tool_called op of None \<Rightarrow> False | Some t \<Rightarrow> is_write_tool t)"

text \<open>
  The action that an operation with a read-only check gives to
  \<^verbatim>\<open>_read_only_message\<close>: the f-string in the method's body.
\<close>

fun denied_action :: "operation \<Rightarrow> string option" where
  "denied_action (JiraCreateIssue project_key summary issue_type description assignee
                    priority labels) = Some ''create a new Jira issue''"
| "denied_action (JiraUpdateIssue issue_key summary description assignee priority labels) =
     Some (''update issue '' @ issue_key)"
| "denied_action (JiraTransitionIssue issue_key transition_id comment) =
     Some (''transition issue '' @ issue_key)"
| "denied_action (JiraAddComment issue_key comment) =
     Some (''add a comment to issue '' @ issue_key)"
| "denied_action (JiraAddWorklog issue_key time_spent comment started) =
     Some (''add a worklog to issue '' @ issue_key)"
| "denied_action (JiraLinkToEpic issue_key epic_key) =
     Some (''link issue '' @ issue_key @ '' to epic '' @ epic_key)"
| "denied_action (JiraCreateIssueLink link_type inward_issue_key outward_issue_key comment) =
     Some (''create a link between '' @ inward_issue_key @ '' and '' @ outward_issue_key)"
| "denied_action (JiraDeleteIssue issue_key) = Some (''delete issue '' @ issue_key)"
| "denied_action (CallMcpTool tool_name arguments) = Some (''execute '' @ quoted tool_name)"
| "denied_action op = None"

text \<open>What \<^verbatim>\<open>json.loads\<close> raises on the argument string of the generic call, if anything.\<close>

fun parser_exception :: "operation \<Rightarrow> exn option" where
  "parser_exception (CallMcpTool tool_name arguments) =
     (case json_loads arguments of Inl e \<Rightarrow> Some e | Inr v \<Rightarrow> None)"
| "parser_exception op = None"

section \<open>Networks for the examples\<close>

text \<open>
  A network that answers the requests of one operation from a list, in order, and
  refuses the connection once the list is used up.
\<close>

definition scripted :: "outcome list \<Rightarrow> network" where
  "scripted outs n req =
     (if n < length outs then outs ! n
      else Failed (Exn RequestError ''Connection refused''))"

definition ok_response :: "string option \<Rightarrow> json \<Rightarrow> outcome" where
  "ok_response sid data =
     Responded \<lparr>status_code = 200, body_text = json_dumps data,
                session_id_header = sid, body = Inr data\<rparr>"

definition example_user :: UserValves where
  "example_user = \<lparr>LITELLM_API_KEY = ''sk-1'', JIRA_PAT = ''pat-1'', REQUEST_TIMEOUT = 120\<rparr>"

definition server_error :: outcome where
  "server_error =
     Responded \<lparr>status_code = 500, body_text = ''Internal Server Error'',
                session_id_header = None,
                body = Inl (Exn JSONDecodeError ''Expecting value: line 1 column 1 (char 0)'')\<rparr>"

text \<open>
  A context whose \<^verbatim>\<open>valves\<close> entry is a mapping with \<^verbatim>\<open>None\<close> for the token;
  the constructor rejects it. The text of its exception is abbreviated.
\<close>

definition null_token_context :: caller_context where
  "null_token_context =
     Some [(''valves'',
            DictValves [(''JIRA_PAT'', JNull)]
              (Inl (Exn ValidationError
                      ''1 validation error for UserValves: JIRA_PAT: Input should be a valid string'')))]"

text \<open>A context whose \<^verbatim>\<open>valves\<close> entry is a mapping that gives a token.\<close>

definition token_context :: caller_context where
  "token_context =
     Some [(''valves'',
            DictValves [(''JIRA_PAT'', JStr ''pat-1'')]
              (Inr \<lparr>LITELLM_API_KEY = [], JIRA_PAT = ''pat-1'', REQUEST_TIMEOUT = 120\<rparr>))]"

text \<open>An argument string that \<^verbatim>\<open>json.loads\<close> rejects.\<close>

definition bad_arguments :: json_text where
  "bad_arguments =
     Malformed ''{bad''
       ''Expecting property name enclosed in double quotes: line 1 column 2 (char 1)''"

text \<open>Two thousand opening brackets: the parser gives up with \<^verbatim>\<open>RecursionError\<close>.\<close>

definition deep_arguments :: json_text where
  "deep_arguments =
     ParserFault (replicate 2000 CHR ''['')
       (Exn RecursionError
          ''maximum recursion depth exceeded while decoding a JSON array from a unicode string'')"

text \<open>A caller whose timeout is not a multiple of four.\<close>

definition slow_user :: UserValves where
  "slow_user = \<lparr>LITELLM_API_KEY = ''sk-1'', JIRA_PAT = ''pat-1'', REQUEST_TIMEOUT = 122\<rparr>"

text \<open>A response body with a text item, an item of another type and a resource item.\<close>

definition example_items :: "json list" where
  "example_items =
     [JObj [(''type'', JStr ''text''), (''text'', JStr ''A'')],
      JObj [(''type'', JStr ''image''), (''data'', JStr ''aGk='')],
      JObj [(''type'', JStr ''resource''), (''resource'', JObj [(''uri'', JStr ''x://y'')])]]"

definition example_content :: json where
  "example_content =
     JObj [(''jsonrpc'', JStr ''2.0''), (''id'', JInt 3),
           (''result'', JObj [(''content'', JArr example_items)])]"




section \<open>The specification's wording of the two filters\<close>

subsection \<open>Normalisation of \<^verbatim>\<open>result.content\<close>\<close>

text \<open>
  The specification describes the normalisation item by item: the text of an item
  of type \<^verbatim>\<open>text\<close>, a placeholder with the URI for an item of type
  \<^verbatim>\<open>resource\<close>, nothing for any other item; the pieces joined by newlines, and
  the JSON encoding of the whole body when there is no piece. The definitions of
  this subsection follow that wording; they are compared with \<open>call_result\<close>
  below. An absent text counts as empty and an absent URI as \<^verbatim>\<open>unknown\<close>.
\<close>

definition item_type :: "json \<Rightarrow> json" where
  "item_type item =
     (case item of
        JObj kvs \<Rightarrow> (case map_of kvs ''type'' of None \<Rightarrow> JNull | Some t \<Rightarrow> t)
      | _ \<Rightarrow> JNull)"

definition spec_item_text :: "json \<Rightarrow> string" where
  "spec_item_text item =
     (case item of
        JObj kvs \<Rightarrow> (case map_of kvs ''text'' of Some (JStr t) \<Rightarrow> t | _ \<Rightarrow> [])
      | _ \<Rightarrow> [])"

definition spec_item_uri :: "json \<Rightarrow> string" where
  "spec_item_uri item =
     (case item of
        JObj kvs \<Rightarrow>
          (case map_of kvs ''resource'' of
             Some (JObj r) \<Rightarrow>
               (case map_of r ''uri'' of Some u \<Rightarrow> py_str u | None \<Rightarrow> ''unknown'')
           | _ \<Rightarrow> ''unknown'')
      | _ \<Rightarrow> ''unknown'')"

definition spec_pieces :: "json \<Rightarrow> string list" where
  "spec_pieces item =
     (if item_type item = JStr ''text'' then [spec_item_text item]
      else if item_type item = JStr ''resource''
        then [''[Resource: '' @ spec_item_uri item @ '']'']
      else [])"

definition spec_normalize :: "json \<Rightarrow> json list \<Rightarrow> string" where
  "spec_normalize data items =
     (let pieces = concat (map spec_pieces items)
      in if pieces = [] then json_dumps data else join [CHR 0x0A] pieces)"

text \<open>
  The items of a response that follows the protocol: each is a dictionary; the text
  of a text item is a string, the resource of a resource item is a dictionary.
\<close>

definition well_formed_item :: "json \<Rightarrow> bool" where
  "well_formed_item item =
     (case item of
        JObj kvs \<Rightarrow>
          (case map_of kvs ''type'' of
             Some (JStr ty) \<Rightarrow>
               if ty = ''text''
               then (case map_of kvs ''text'' of
                       None \<Rightarrow> True | Some (JStr t) \<Rightarrow> True | _ \<Rightarrow> False)
               else if ty = ''resource''
               then (case map_of kvs ''resource'' of
                       None \<Rightarrow> True | Some (JObj r) \<Rightarrow> True | _ \<Rightarrow> False)
               else True
           | _ \<Rightarrow> True)
      | _ \<Rightarrow> False)"

subsection \<open>The filter of discovery\<close>






section \<open>Basic facts\<close>

lemmas operation_defs =
  discover_jira_tools_def jira_search_def jira_get_issue_def jira_get_all_projects_def
  jira_get_project_issues_def jira_get_transitions_def jira_get_agile_boards_def
  jira_get_sprints_from_board_def jira_get_sprint_issues_def jira_get_worklog_def
  jira_get_user_profile_def jira_search_fields_def jira_get_project_versions_def
  jira_get_board_issues_def jira_get_link_types_def jira_create_issue_def
  jira_update_issue_def jira_transition_issue_def jira_add_comment_def
  jira_add_worklog_def jira_link_to_epic_def jira_create_issue_link_def
  jira_delete_issue_def call_mcp_tool_def

lemma py_get_JObj:
  "py_get (JObj kvs) key dflt = Inr (case map_of kvs key of None \<Rightarrow> dflt | Some x \<Rightarrow> x)"
  by (simp add: py_get_def split: option.splits)

lemma strings_of_JStr: "strings_of i (map JStr ss) = Inr ss"
  by (induction ss arbitrary: i) simp_all

lemma py_join_JStr: "py_join sep (map JStr ss) = Inr (join sep ss)"
  by (simp add: py_join_def strings_of_JStr)

subsection \<open>The handshake\<close>

lemma handshake_first_request:
  "\<exists>rest. snd (handshake self net uv sent) = sent @ initialize_request self uv # rest"
  by (auto simp: handshake_def post_def Let_def split: outcome.splits sum.splits bool.splits)

lemma no_session_header: "''Mcp-Session-Id'' \<notin> fst ` set (get_headers self uv None)"
  by (auto simp: get_headers_def)

subsection \<open>\<^verbatim>\<open>_call_tool\<close> and the operations always return\<close>

lemma call_tool_returns: "\<exists>s. fst (call_tool self net tool_name arguments uv sent) = Inr s"
  by (simp add: call_tool_def split: prod.splits sum.splits)

lemma call_tool_after_handshake:
  assumes "handshake self net uv sent = (Inr sid, sent1)" and "JIRA_PAT uv \<noteq> []"
  shows "\<exists>s. call_tool self net tool_name arguments uv sent =
           (Inr s, sent1 @ [call_request self uv sid tool_name arguments])"
  using assms
  by (auto simp: call_tool_def call_tool_try_def post_def
      split: outcome.splits sum.splits prod.splits)

lemma call_tool_handshake_raises:
  assumes "handshake self net uv sent = (Inl e, sent1)" and "JIRA_PAT uv \<noteq> []"
  shows "\<exists>s. call_tool self net tool_name arguments uv sent = (Inr s, sent1)"
  using assms by (auto simp: call_tool_def call_tool_try_def)

lemma call_tool_no_token:
  "JIRA_PAT uv = [] \<Longrightarrow>
   call_tool self net tool_name arguments uv sent = (Inr (unicode_of not_configured), sent)"
  by (simp add: call_tool_def)

lemma call_tool_converts:
  assumes "JIRA_PAT uv \<noteq> []"
    and "call_tool_try self net tool_name arguments uv sent = (Inl e, sent')"
  shows "call_tool self net tool_name arguments uv sent =
           (Inr (unicode_of (json_dumps (JObj
              [(''error'',
                JStr (if exn_class_of e = Timeout
                      then ''Request timeout after '' @ show_int (REQUEST_TIMEOUT uv)
                           @ ''s - try increasing REQUEST_TIMEOUT in user settings''
                      else exn_str e))]))),
            sent')"
  using assms by (simp add: call_tool_def error_payload_def)

lemma discover_converts:
  assumes "get_user_valves self user = Inr uv" and "JIRA_PAT uv \<noteq> []"
    and "discover_try self net uv sent = (Inl e, sent')"
  shows "discover_jira_tools self net user sent =
           (Inr (unicode_of (json_dumps (JObj
              [(''error'', JStr (''Discovery failed: '' @ exn_str e))]))),
            sent')"
  using assms by (simp add: discover_jira_tools_def error_payload_def)

lemma invoke_returns:
  assumes "get_user_valves self user = Inr uv"
    and "parser_exception op = None
         \<or> (\<exists>e. parser_exception op = Some e \<and> exn_class_of e = JSONDecodeError)"
  shows "\<exists>s. fst (invoke self net op user sent) = Inr s"
proof (cases op)
  case (CallMcpTool name args)
  with assms call_tool_returns [of self net name _ uv sent] show ?thesis
    by (auto simp add: call_mcp_tool_def split: sum.splits)
qed (use assms call_tool_returns [of self net _ _ uv sent] in
      \<open>simp_all add: operation_defs split: prod.splits sum.splits\<close>)

lemma invoke_raises:
  assumes "fst (invoke self net op user sent) = Inl e"
  shows "snd (invoke self net op user sent) = sent
         \<and> (get_user_valves self user = Inl e
              \<or> (\<exists>uv. get_user_valves self user = Inr uv) \<and> parser_exception op = Some e
                 \<and> exn_class_of e \<noteq> JSONDecodeError)"
proof (cases "get_user_valves self user")
  case (Inl e')
  with assms show ?thesis
    by (cases op) (simp_all add: operation_defs split: if_splits)
next
  case (Inr uv)
  show ?thesis
  proof (cases "parser_exception op = None
         \<or> (\<exists>e. parser_exception op = Some e \<and> exn_class_of e = JSONDecodeError)")
    case True
    from invoke_returns [OF Inr True, of net sent] assms show ?thesis by auto
  next
    case False
    then obtain name args where op: "op = CallMcpTool name args"
      by (cases op) simp_all
    from False op obtain e' where e': "json_loads args = Inl e'"
      "exn_class_of e' \<noteq> JSONDecodeError"
      by (auto split: sum.splits)
    with assms Inr op show ?thesis
      by (auto simp add: call_mcp_tool_def split: if_splits)
  qed
qed

lemma resolver_raises_on_mapping:
  assumes "get_user_valves self user = Inl e"
  shows "\<exists>d kvs. user = Some d \<and> map_of d ''valves'' = Some (DictValves kvs (Inl e))"
  using assms
  by (auto simp: get_user_valves_def
      split: option.splits user_entry.splits plain_value.splits if_splits)

section \<open>The handshake\<close>

text \<open>
  Claim C4, as the code has it. The timeout of the handshake's \<^verbatim>\<open>initialize\<close>
  request is \<open>max(30, t // 4)\<close> for the caller's timeout \<open>t\<close>: the quotient is
  rounded down to an integer. That request is the first one the handshake sends,
  whatever the network answers. A timeout of 120 gives 30, 20 gives 30 and 400 gives
  100. The value is \<open>max(30, t / 4)\<close> with the exact quotient whenever \<open>t\<close> is at
  most 120 or a multiple of four.
\<close>

theorem handshake_timeout_quarter_rounded_down:
  "timeout (initialize_request self uv) = max 30 (REQUEST_TIMEOUT uv div 4)
   \<and> timeout (initialize_request self uv) = max 30 \<lfloor>real_of_int (REQUEST_TIMEOUT uv) / 4\<rfloor>
   \<and> (\<exists>rest. snd (handshake self net uv sent) = sent @ initialize_request self uv # rest)
   \<and> handshake_timeout \<lparr>LITELLM_API_KEY = k, JIRA_PAT = p, REQUEST_TIMEOUT = 120\<rparr> = 30
   \<and> handshake_timeout \<lparr>LITELLM_API_KEY = k, JIRA_PAT = p, REQUEST_TIMEOUT = 20\<rparr> = 30
   \<and> handshake_timeout \<lparr>LITELLM_API_KEY = k, JIRA_PAT = p, REQUEST_TIMEOUT = 400\<rparr> = 100
   \<and> (REQUEST_TIMEOUT uv \<le> 120 \<or> 4 dvd REQUEST_TIMEOUT uv \<longrightarrow>
        real_of_int (timeout (initialize_request self uv))
          = max 30 (real_of_int (REQUEST_TIMEOUT uv) / 4))"
proof -
  have fl: "\<lfloor>real_of_int (REQUEST_TIMEOUT uv) / 4\<rfloor> = REQUEST_TIMEOUT uv div 4"
    using floor_divide_of_int_eq [of "REQUEST_TIMEOUT uv" 4, where ?'a = real] by simp
  have exact: "real_of_int (max 30 (REQUEST_TIMEOUT uv div 4))
                 = max 30 (real_of_int (REQUEST_TIMEOUT uv) / 4)"
    if "REQUEST_TIMEOUT uv \<le> 120 \<or> 4 dvd REQUEST_TIMEOUT uv"
    using that
  proof
    assume "REQUEST_TIMEOUT uv \<le> 120"
    then have "REQUEST_TIMEOUT uv div 4 \<le> 30"
      and "real_of_int (REQUEST_TIMEOUT uv) / 4 \<le> 30"
      by simp_all
    then show ?thesis by (simp add: max_def)
  next
    assume "4 dvd REQUEST_TIMEOUT uv"
    then have "real_of_int (REQUEST_TIMEOUT uv div 4) = real_of_int (REQUEST_TIMEOUT uv) / 4"
      by (simp add: real_of_int_div)
    then show ?thesis by (simp add: max_def)
  qed
  from handshake_first_request [of self net uv sent] fl exact show ?thesis
    by (simp add: initialize_request_def handshake_timeout_def)
qed

text \<open>
  The claim as the specification states it, with the exact quotient, fails at a
  timeout of 122: the request has the timeout 30, and \<open>max(30, 122 / 4)\<close> is 30.5.
\<close>

theorem handshake_timeout_counterexample:
  "timeout (initialize_request init_Tools slow_user) = 30
   \<and> max 30 (real_of_int (REQUEST_TIMEOUT slow_user) / 4) = 61 / 2
   \<and> real_of_int (timeout (initialize_request init_Tools slow_user))
       \<noteq> max 30 (real_of_int (REQUEST_TIMEOUT slow_user) / 4)"
  by (simp add: initialize_request_def handshake_timeout_def slow_user_def)

theorem handshake_timeout_quarter_rounded_down_witness:
  "4 dvd REQUEST_TIMEOUT \<lparr>LITELLM_API_KEY = [], JIRA_PAT = ''pat-1'', REQUEST_TIMEOUT = 400\<rparr>
   \<and> real_of_int (timeout (initialize_request init_Tools
         \<lparr>LITELLM_API_KEY = [], JIRA_PAT = ''pat-1'', REQUEST_TIMEOUT = 400\<rparr>)) = 100
   \<and> REQUEST_TIMEOUT example_user \<le> 120
   \<and> real_of_int (timeout (initialize_request init_Tools example_user)) = 30"
proof -
  let ?uv = "\<lparr>LITELLM_API_KEY = [], JIRA_PAT = ''pat-1'', REQUEST_TIMEOUT = 400\<rparr>"
  have d: "4 dvd REQUEST_TIMEOUT ?uv" by simp
  have l: "REQUEST_TIMEOUT example_user \<le> 120" by (simp add: example_user_def)
  from handshake_timeout_quarter_rounded_down [of init_Tools ?uv] d
  have a: "real_of_int (timeout (initialize_request init_Tools ?uv)) = 100" by simp
  from handshake_timeout_quarter_rounded_down [of init_Tools example_user] l
  have b: "real_of_int (timeout (initialize_request init_Tools example_user)) = 30"
    by (simp add: example_user_def)
  from d l a b show ?thesis by blast
qed

text \<open>
  Claim C10. When the response to \<^verbatim>\<open>initialize\<close> has status 200, a body without
  error and no \<^verbatim>\<open>Mcp-Session-Id\<close> header, the handshake succeeds with the
  session identifier \<^verbatim>\<open>None\<close>; the notification and the tool call that follow
  carry no \<^verbatim>\<open>Mcp-Session-Id\<close> header, and the operation goes on to send the tool
  call.
\<close>

theorem handshake_without_session_id:
  assumes "net (length sent) (initialize_request self uv) = Responded r"
    and "status_code r = 200"
    and "session_id_header r = None"
    and "body r = Inr data"
    and "py_in ''error'' data = Inr False"
    and "net (Suc (length sent)) (notify_request self uv None) = Responded r2"
  shows "handshake self net uv sent =
           (Inr None, sent @ [initialize_request self uv, notify_request self uv None])
         \<and> ''Mcp-Session-Id'' \<notin> fst ` set (headers (notify_request self uv None))
         \<and> ''Mcp-Session-Id'' \<notin>
               fst ` set (headers (call_request self uv None tool_name arguments))
         \<and> (JIRA_PAT uv \<noteq> [] \<longrightarrow>
              (\<exists>s. call_tool self net tool_name arguments uv sent =
                 (Inr s, sent @ [initialize_request self uv, notify_request self uv None,
                                 call_request self uv None tool_name arguments])))"
proof -
  have hs: "handshake self net uv sent =
           (Inr None, sent @ [initialize_request self uv, notify_request self uv None])"
    using assms by (simp add: handshake_def post_def Let_def)
  have h1: "''Mcp-Session-Id'' \<notin> fst ` set (headers (notify_request self uv None))"
    using no_session_header by (simp add: notify_request_def)
  have h2: "''Mcp-Session-Id'' \<notin>
              fst ` set (headers (call_request self uv None tool_name arguments))"
    using no_session_header by (simp add: call_request_def)
  have h3: "\<exists>s. call_tool self net tool_name arguments uv sent =
                 (Inr s, sent @ [initialize_request self uv, notify_request self uv None,
                                 call_request self uv None tool_name arguments])"
    if "JIRA_PAT uv \<noteq> []"
    using call_tool_after_handshake [OF hs that] by simp
  from hs h1 h2 h3 show ?thesis by blast
qed

theorem handshake_without_session_id_witness:
  "handshake init_Tools
     (scripted [ok_response None (JObj []), ok_response None (JObj []),
                ok_response None (JObj [])])
     example_user []
   = (Inr None,
      [initialize_request init_Tools example_user, notify_request init_Tools example_user None])
   \<and> (\<exists>s. call_tool init_Tools
          (scripted [ok_response None (JObj []), ok_response None (JObj []),
                     ok_response None (JObj [])])
          ''jira_get_all_projects'' (JObj []) example_user []
        = (Inr s,
           [initialize_request init_Tools example_user,
            notify_request init_Tools example_user None,
            call_request init_Tools example_user None ''jira_get_all_projects'' (JObj [])]))"
proof -
  let ?ok = "\<lparr>status_code = 200, body_text = json_dumps (JObj []),
                session_id_header = None, body = Inr (JObj [])\<rparr>"
  let ?net = "scripted [ok_response None (JObj []), ok_response None (JObj []),
                        ok_response None (JObj [])]"
  have pat: "JIRA_PAT example_user \<noteq> []" by (simp add: example_user_def)
  have err: "py_in ''error'' (JObj []) = Inr False" by (simp add: py_in_def)
  have a: "?net (length ([]::request list)) (initialize_request init_Tools example_user)
             = Responded ?ok"
    by (simp add: scripted_def ok_response_def)
  have b: "?net (Suc (length ([]::request list))) (notify_request init_Tools example_user None)
             = Responded ?ok"
    by (simp add: scripted_def ok_response_def)
  have st: "status_code ?ok = 200" and sh: "session_id_header ?ok = None"
    and bd: "body ?ok = Inr (JObj [])"
    by simp_all
  from handshake_without_session_id
         [of ?net "[]" init_Tools example_user ?ok "JObj []" ?ok
             "''jira_get_all_projects''" "JObj []", OF a st sh bd err b] pat
  show ?thesis by simp
qed

text \<open>
  Claim C6, as the code has it. The response to the \<^verbatim>\<open>initialized\<close> notification
  is not inspected: whatever its status and body, the handshake returns the session
  identifier and the operation goes on to send the tool call. An exception raised by
  the notification request itself (a timeout, a refused connection) is not caught in
  the handshake: it leaves the handshake, no tool call is sent, and
  \<^verbatim>\<open>_call_tool\<close> returns it as a string.
\<close>

theorem notification_response_not_inspected:
  assumes "net (length sent) (initialize_request self uv) = Responded r"
    and "status_code r = 200"
    and "body r = Inr data"
    and "py_in ''error'' data = Inr False"
    and "JIRA_PAT uv \<noteq> []"
  shows "(net (Suc (length sent)) (notify_request self uv (session_id_header r)) = Responded r2
          \<longrightarrow>
            handshake self net uv sent =
              (Inr (session_id_header r),
               sent @ [initialize_request self uv,
                       notify_request self uv (session_id_header r)])
            \<and> (\<exists>s. call_tool self net tool_name arguments uv sent =
                 (Inr s, sent @ [initialize_request self uv,
                                 notify_request self uv (session_id_header r),
                                 call_request self uv (session_id_header r)
                                   tool_name arguments])))
       \<and> (net (Suc (length sent)) (notify_request self uv (session_id_header r)) = Failed e
          \<longrightarrow>
            handshake self net uv sent =
              (Inl e,
               sent @ [initialize_request self uv,
                       notify_request self uv (session_id_header r)])
            \<and> (\<exists>s. call_tool self net tool_name arguments uv sent =
                 (Inr s, sent @ [initialize_request self uv,
                                 notify_request self uv (session_id_header r)])))"
proof (intro conjI impI)
  assume n: "net (Suc (length sent)) (notify_request self uv (session_id_header r))
               = Responded r2"
  show hs: "handshake self net uv sent =
              (Inr (session_id_header r),
               sent @ [initialize_request self uv,
                       notify_request self uv (session_id_header r)])"
    using assms n by (simp add: handshake_def post_def Let_def)
  show "\<exists>s. call_tool self net tool_name arguments uv sent =
                 (Inr s, sent @ [initialize_request self uv,
                                 notify_request self uv (session_id_header r),
                                 call_request self uv (session_id_header r)
                                   tool_name arguments])"
    using call_tool_after_handshake [OF hs assms(5)] by simp
next
  assume n: "net (Suc (length sent)) (notify_request self uv (session_id_header r)) = Failed e"
  show hs: "handshake self net uv sent =
              (Inl e,
               sent @ [initialize_request self uv,
                       notify_request self uv (session_id_header r)])"
    using assms n by (simp add: handshake_def post_def Let_def)
  show "\<exists>s. call_tool self net tool_name arguments uv sent =
                 (Inr s, sent @ [initialize_request self uv,
                                 notify_request self uv (session_id_header r)])"
    using call_tool_handshake_raises [OF hs assms(5)] by simp
qed

text \<open>
  The claim as the specification states it fails when the notification request times
  out: the handshake raises instead of returning the session identifier
  \<^verbatim>\<open>sess-1\<close>, and \<^verbatim>\<open>_call_tool\<close> returns the timeout message after two
  requests, without a tool call.
\<close>

theorem notification_timeout_counterexample:
  "handshake init_Tools
     (scripted [ok_response (Some ''sess-1'') (JObj []),
                Failed (Exn Timeout ''Read timed out.'')])
     example_user []
   = (Inl (Exn Timeout ''Read timed out.''),
      [initialize_request init_Tools example_user,
       notify_request init_Tools example_user (Some ''sess-1'')])
   \<and> call_tool init_Tools
     (scripted [ok_response (Some ''sess-1'') (JObj []),
                Failed (Exn Timeout ''Read timed out.'')])
     ''jira_get_all_projects'' (JObj []) example_user []
   = (Inr (unicode_of (error_payload
             (JStr ''Request timeout after 120s - try increasing REQUEST_TIMEOUT in user settings''))),
      [initialize_request init_Tools example_user,
       notify_request init_Tools example_user (Some ''sess-1'')])"
  by (simp add: call_tool_def call_tool_try_def handshake_def post_def scripted_def
      ok_response_def py_in_def example_user_def show_int_def show_nat.simps digit_char_def)

theorem notification_response_not_inspected_witness:
  "handshake init_Tools
     (scripted [ok_response (Some ''sess-1'') (JObj []), server_error,
                ok_response None (JObj [])])
     example_user []
   = (Inr (Some ''sess-1''),
      [initialize_request init_Tools example_user,
       notify_request init_Tools example_user (Some ''sess-1'')])
   \<and> (\<exists>s. call_tool init_Tools
          (scripted [ok_response (Some ''sess-1'') (JObj []),
                     Failed (Exn RequestError ''Connection aborted.'')])
          ''jira_get_all_projects'' (JObj []) example_user []
        = (Inr s,
           [initialize_request init_Tools example_user,
            notify_request init_Tools example_user (Some ''sess-1'')]))"
proof -
  let ?ok = "\<lparr>status_code = 200, body_text = json_dumps (JObj []),
                session_id_header = Some ''sess-1'', body = Inr (JObj [])\<rparr>"
  let ?n1 = "scripted [ok_response (Some ''sess-1'') (JObj []), server_error,
                       ok_response None (JObj [])]"
  let ?n2 = "scripted [ok_response (Some ''sess-1'') (JObj []),
                       Failed (Exn RequestError ''Connection aborted.'')]"
  have pat: "JIRA_PAT example_user \<noteq> []" by (simp add: example_user_def)
  have err: "py_in ''error'' (JObj []) = Inr False" by (simp add: py_in_def)
  have st: "status_code ?ok = 200" and bd: "body ?ok = Inr (JObj [])" by simp_all
  have a1: "?n1 (length ([]::request list)) (initialize_request init_Tools example_user)
              = Responded ?ok"
    by (simp add: scripted_def ok_response_def)
  have a2: "?n2 (length ([]::request list)) (initialize_request init_Tools example_user)
              = Responded ?ok"
    by (simp add: scripted_def ok_response_def)
  have b1: "?n1 (Suc (length ([]::request list)))
              (notify_request init_Tools example_user (session_id_header ?ok))
            = Responded \<lparr>status_code = 500, body_text = ''Internal Server Error'',
                session_id_header = None,
                body = Inl (Exn JSONDecodeError ''Expecting value: line 1 column 1 (char 0)'')\<rparr>"
    by (simp add: scripted_def server_error_def)
  have b2: "?n2 (Suc (length ([]::request list)))
              (notify_request init_Tools example_user (session_id_header ?ok))
            = Failed (Exn RequestError ''Connection aborted.'')"
    by (simp add: scripted_def)
  from notification_response_not_inspected
         [of ?n1 "[]" init_Tools example_user ?ok "JObj []", OF a1 st bd err pat] b1
  have c1: "handshake init_Tools ?n1 example_user []
   = (Inr (Some ''sess-1''),
      [initialize_request init_Tools example_user,
       notify_request init_Tools example_user (Some ''sess-1'')])"
    by simp
  from notification_response_not_inspected
         [of ?n2 "[]" init_Tools example_user ?ok "JObj []", OF a2 st bd err pat] b2
  have c2: "\<exists>s. call_tool init_Tools ?n2 ''jira_get_all_projects'' (JObj []) example_user []
   = (Inr s,
      [initialize_request init_Tools example_user,
       notify_request init_Tools example_user (Some ''sess-1'')])"
    by simp
  from c1 c2 show ?thesis by simp
qed

section \<open>Normalisation of a tool's result\<close>

lemma content_loop_step:
  assumes "well_formed_item item"
  shows "content_loop (item # rest) acc = content_loop rest (acc @ map JStr (spec_pieces item))"
proof -
  from assms obtain kvs where item: "item = JObj kvs"
    by (cases item) (simp_all add: well_formed_item_def)
  define ty where "ty = (case map_of kvs ''type'' of None \<Rightarrow> JNull | Some t \<Rightarrow> t)"
  have ty: "item_type item = ty" by (simp add: item ty_def item_type_def)
  have get_ty: "py_get item ''type'' JNull = Inr ty" by (simp add: item ty_def py_get_JObj)
  consider (txt_item) "ty = JStr ''text''" | (res_item) "ty = JStr ''resource''"
    | (other) "ty \<noteq> JStr ''text''" "ty \<noteq> JStr ''resource''"
    by blast
  then show ?thesis
  proof cases
    case txt_item
    then have "map_of kvs ''type'' = Some (JStr ''text'')"
      by (simp add: ty_def split: option.splits)
    with assms have "map_of kvs ''text'' = None \<or> (\<exists>t. map_of kvs ''text'' = Some (JStr t))"
      by (simp add: item well_formed_item_def split: option.splits json.splits)
    then have "py_get item ''text'' (JStr []) = Inr (JStr (spec_item_text item))"
      by (auto simp: item py_get_JObj spec_item_text_def)
    with txt_item get_ty ty show ?thesis by (simp add: spec_pieces_def)
  next
    case res_item
    then have "map_of kvs ''type'' = Some (JStr ''resource'')"
      by (simp add: ty_def split: option.splits)
    with assms
    have "map_of kvs ''resource'' = None \<or> (\<exists>r. map_of kvs ''resource'' = Some (JObj r))"
      by (simp add: item well_formed_item_def split: option.splits json.splits)
    then obtain r where res: "py_get item ''resource'' (JObj []) = Inr (JObj r)"
      and uri: "spec_item_uri item =
                  (case map_of r ''uri'' of Some u \<Rightarrow> py_str u | None \<Rightarrow> ''unknown'')"
      by (auto simp: item py_get_JObj spec_item_uri_def)
    have "py_get (JObj r) ''uri'' (JStr ''unknown'') =
            Inr (case map_of r ''uri'' of None \<Rightarrow> JStr ''unknown'' | Some u \<Rightarrow> u)"
      by (rule py_get_JObj)
    moreover
    have "py_str (case map_of r ''uri'' of None \<Rightarrow> JStr ''unknown'' | Some u \<Rightarrow> u)
            = spec_item_uri item"
      by (simp add: uri split: option.splits)
    ultimately show ?thesis
      using res_item get_ty ty res by (simp add: spec_pieces_def)
  next
    case other
    with get_ty ty show ?thesis by (simp add: spec_pieces_def)
  qed
qed

lemma content_loop_spec:
  "\<forall>item \<in> set items. well_formed_item item \<Longrightarrow>
   content_loop items acc = Inr (acc @ map JStr (concat (map spec_pieces items)))"
proof (induction items arbitrary: acc)
  case Nil
  then show ?case by simp
next
  case (Cons item rest)
  then have "well_formed_item item" and "\<forall>i \<in> set rest. well_formed_item i" by simp_all
  then show ?case
    using Cons.IH [of "acc @ map JStr (spec_pieces item)"] content_loop_step [of item rest acc]
    by simp
qed

lemma call_result_spec:
  assumes "py_in ''error'' data = Inr False"
    and "py_get data ''result'' (JObj []) = Inr res"
    and "py_get res ''content'' (JArr []) = Inr (JArr items)"
    and "\<forall>item \<in> set items. well_formed_item item"
  shows "call_result data = Inr (spec_normalize data items)"
proof -
  have loop: "content_loop items [] = Inr (map JStr (concat (map spec_pieces items)))"
    using content_loop_spec [OF assms(4), of "[]"] by simp
  show ?thesis
    using assms(1-3) loop
    by (simp add: call_result_def spec_normalize_def py_iter_def py_join_JStr Let_def)
qed

text \<open>
  Claim C5. For a response body without error whose \<^verbatim>\<open>result.content\<close> is a
  list of well-formed items, \<^verbatim>\<open>_call_tool\<close> returns the normalisation that the
  specification words: the text of each text item, \<^verbatim>\<open>[Resource: uri]\<close> for each
  resource item, nothing for an item of another type, the pieces joined by
  newlines, and the JSON encoding of the whole body when there is no piece. Two
  text items \<^verbatim>\<open>A\<close> and \<^verbatim>\<open>B\<close> give \<^verbatim>\<open>A\nB\<close>, and one resource item with
  the URI \<^verbatim>\<open>x://y\<close> gives \<^verbatim>\<open>[Resource: x://y]\<close>.
\<close>

theorem content_normalisation:
  assumes "py_in ''error'' data = Inr False"
    and "py_get data ''result'' (JObj []) = Inr res"
    and "py_get res ''content'' (JArr []) = Inr (JArr items)"
    and "\<forall>item \<in> set items. well_formed_item item"
  shows "call_result data = Inr (spec_normalize data items)
       \<and> (JIRA_PAT uv \<noteq> [] \<longrightarrow>
          handshake self net uv sent = (Inr session_id, sent1) \<longrightarrow>
          net (length sent1) (call_request self uv session_id tool_name arguments) = Responded r
          \<longrightarrow> status_code r = 200 \<longrightarrow> body r = Inr data \<longrightarrow>
            call_tool self net tool_name arguments uv sent =
              (Inr (unicode_of (spec_normalize data items)),
               sent1 @ [call_request self uv session_id tool_name arguments]))
       \<and> call_result
            (JObj [(''result'', JObj [(''content'',
               JArr [JObj [(''type'', JStr ''text''), (''text'', JStr ''A'')],
                     JObj [(''type'', JStr ''text''), (''text'', JStr ''B'')]])])])
          = Inr [CHR ''A'', CHR 0x0A, CHR ''B'']
       \<and> call_result
            (JObj [(''result'', JObj [(''content'',
               JArr [JObj [(''type'', JStr ''resource''),
                           (''resource'', JObj [(''uri'', JStr ''x://y'')])]])])])
          = Inr ''[Resource: x://y]''"
proof -
  have spec: "call_result data = Inr (spec_normalize data items)"
    by (rule call_result_spec [OF assms])
  have through: "call_tool self net tool_name arguments uv sent =
              (Inr (unicode_of (spec_normalize data items)),
               sent1 @ [call_request self uv session_id tool_name arguments])"
    if "JIRA_PAT uv \<noteq> []" "handshake self net uv sent = (Inr session_id, sent1)"
       "net (length sent1) (call_request self uv session_id tool_name arguments) = Responded r"
       "status_code r = 200" "body r = Inr data"
    using that spec by (simp add: call_tool_def call_tool_try_def post_def)
  have two_texts: "call_result
            (JObj [(''result'', JObj [(''content'',
               JArr [JObj [(''type'', JStr ''text''), (''text'', JStr ''A'')],
                     JObj [(''type'', JStr ''text''), (''text'', JStr ''B'')]])])])
          = Inr [CHR ''A'', CHR 0x0A, CHR ''B'']"
    by (simp add: call_result_def py_in_def py_get_def py_iter_def py_join_def)
  have one_resource: "call_result
            (JObj [(''result'', JObj [(''content'',
               JArr [JObj [(''type'', JStr ''resource''),
                           (''resource'', JObj [(''uri'', JStr ''x://y'')])]])])])
          = Inr ''[Resource: x://y]''"
    by (simp add: call_result_def py_in_def py_get_def py_iter_def py_join_def)
  from spec through two_texts one_resource show ?thesis by blast
qed

theorem content_normalisation_witness:
  "list_all well_formed_item example_items
   \<and> call_result example_content = Inr (''A'' @ [CHR 0x0A] @ ''[Resource: x://y]'')
   \<and> call_tool init_Tools
        (scripted [ok_response (Some ''sess-1'') (JObj []), ok_response None (JObj []),
                   ok_response None example_content])
        ''jira_get_issue'' (JObj [(''issue_key'', JStr ''PROJ-1'')]) example_user []
      = (Inr (unicode_of (''A'' @ [CHR 0x0A] @ ''[Resource: x://y]'')),
         [initialize_request init_Tools example_user,
          notify_request init_Tools example_user (Some ''sess-1''),
          call_request init_Tools example_user (Some ''sess-1'') ''jira_get_issue''
            (JObj [(''issue_key'', JStr ''PROJ-1'')])])
   \<and> call_result (JObj [(''result'', JObj [])])
      = Inr (json_dumps (JObj [(''result'', JObj [])]))"
proof -
  let ?net = "scripted [ok_response (Some ''sess-1'') (JObj []), ok_response None (JObj []),
                        ok_response None example_content]"
  let ?args = "JObj [(''issue_key'', JStr ''PROJ-1'')]"
  let ?sent1 = "[initialize_request init_Tools example_user,
                 notify_request init_Tools example_user (Some ''sess-1'')]"
  let ?r = "\<lparr>status_code = 200, body_text = json_dumps example_content,
               session_id_header = None, body = Inr example_content\<rparr>"
  have e: "py_in ''error'' example_content = Inr False"
    by (simp add: example_content_def py_in_def)
  have g1: "py_get example_content ''result'' (JObj [])
              = Inr (JObj [(''content'', JArr example_items)])"
    by (simp add: example_content_def py_get_def)
  have g2: "py_get (JObj [(''content'', JArr example_items)]) ''content'' (JArr [])
              = Inr (JArr example_items)"
    by (simp add: py_get_def)
  have wf: "\<forall>item \<in> set example_items. well_formed_item item"
    by (simp add: example_items_def well_formed_item_def)
  have norm: "spec_normalize example_content example_items
                = ''A'' @ [CHR 0x0A] @ ''[Resource: x://y]''"
    by (simp add: example_items_def spec_normalize_def spec_pieces_def item_type_def
          spec_item_text_def spec_item_uri_def)
  have pat: "JIRA_PAT example_user \<noteq> []" by (simp add: example_user_def)
  have hs: "handshake init_Tools ?net example_user [] = (Inr (Some ''sess-1''), ?sent1)"
    by (simp add: handshake_def post_def scripted_def ok_response_def py_in_def Let_def)
  have third: "?net (length ?sent1)
                 (call_request init_Tools example_user (Some ''sess-1'') ''jira_get_issue'' ?args)
               = Responded ?r"
    by (simp add: scripted_def ok_response_def)
  have st: "status_code ?r = 200" and bd: "body ?r = Inr example_content" by simp_all
  from content_normalisation
         [OF e g1 g2 wf, where uv = example_user and self = init_Tools and net = ?net
            and sent = "[]" and session_id = "Some ''sess-1''" and ?sent1.0 = ?sent1
            and tool_name = "''jira_get_issue''" and arguments = ?args and r = ?r]
       pat hs third st bd norm wf
  have mixed: "list_all well_formed_item example_items
     \<and> call_result example_content = Inr (''A'' @ [CHR 0x0A] @ ''[Resource: x://y]'')
     \<and> call_tool init_Tools ?net ''jira_get_issue'' ?args example_user []
        = (Inr (unicode_of (''A'' @ [CHR 0x0A] @ ''[Resource: x://y]'')),
           ?sent1 @ [call_request init_Tools example_user (Some ''sess-1'') ''jira_get_issue''
                       ?args])"
    by (simp add: list_all_iff)
  have f1: "py_in ''error'' (JObj [(''result'', JObj [])]) = Inr False"
    by (simp add: py_in_def)
  have f2: "py_get (JObj [(''result'', JObj [])]) ''result'' (JObj []) = Inr (JObj [])"
    by (simp add: py_get_def)
  have f3: "py_get (JObj []) ''content'' (JArr []) = Inr (JArr [])"
    by (simp add: py_get_def)
  have f4: "\<forall>item \<in> set ([]::json list). well_formed_item item" by simp
  from content_normalisation [OF f1 f2 f3 f4]
  have fallback: "call_result (JObj [(''result'', JObj [])])
      = Inr (json_dumps (JObj [(''result'', JObj [])]))"
    by (simp add: spec_normalize_def)
  from mixed fallback show ?thesis by simp
qed

section \<open>Discovery\<close>






section \<open>The read-only gate\<close>



text \<open>
  Claim C9. In \<^verbatim>\<open>call_mcp_tool\<close> the gate comes first: with the read-only flag
  set and a tool of the write set, the read-only message is returned and no request
  is sent, whatever the argument string (also one that does not parse) and whatever
  the caller's context (also one without token, and one whose mapping the resolver
  would reject).
\<close>

theorem gate_before_resolver_and_parser:
  assumes "READ_ONLY_MODE (valves self)" and "is_write_tool tool_name"
  shows "call_mcp_tool self net tool_name arguments user sent =
           (Inr (read_only_message (''execute '' @ quoted tool_name)), sent)"
  using assms by (simp add: call_mcp_tool_def)

theorem gate_before_resolver_and_parser_witness:
  "(\<exists>e. json_loads bad_arguments = Inl e)
   \<and> (\<exists>e. get_user_valves init_Tools null_token_context = Inl e)
   \<and> JIRA_PAT (user_valves init_Tools) = []
   \<and> call_mcp_tool init_Tools (scripted []) ''jira_delete_issue'' bad_arguments
        null_token_context []
      = (Inr (read_only_message (''execute '' @ quoted ''jira_delete_issue'')), [])
   \<and> call_mcp_tool init_Tools (scripted []) ''jira_delete_issue'' bad_arguments None []
      = (Inr (read_only_message (''execute '' @ quoted ''jira_delete_issue'')), [])
   \<and> call_mcp_tool init_Tools (scripted []) ''jira_delete_issue'' deep_arguments None []
      = (Inr (read_only_message (''execute '' @ quoted ''jira_delete_issue'')), [])"
proof -
  have ro: "READ_ONLY_MODE (valves init_Tools)"
    by (simp add: init_Tools_def default_Valves_def)
  have w: "is_write_tool ''jira_delete_issue''"
    by (simp add: is_write_tool_def write_tools_def)
  have bad: "\<exists>e. json_loads bad_arguments = Inl e" by (simp add: bad_arguments_def)
  have rej: "\<exists>e. get_user_valves init_Tools null_token_context = Inl e"
    by (simp add: get_user_valves_def null_token_context_def)
  have nopat: "JIRA_PAT (user_valves init_Tools) = []"
    by (simp add: init_Tools_def default_UserValves_def)
  note t = gate_before_resolver_and_parser [OF ro w, where net = "scripted []" and sent = "[]"]
  from t [of bad_arguments null_token_context] t [of bad_arguments None]
       t [of deep_arguments None] bad rej nopat
  show ?thesis by blast
qed

section \<open>The absent token and the malformed argument string\<close>

text \<open>
  Claim C3, as the code has it. When the caller's token is empty, no operation
  sends a request. The result is the \<^verbatim>\<open>Jira PAT not configured\<close> payload whenever
  the operation reaches the check of the token, that is, unless an earlier step of
  the operation answers first: an operation for a write tool under the read-only
  flag returns the read-only message, and the generic call whose argument string
  \<^verbatim>\<open>json.loads\<close> rejects with \<^verbatim>\<open>JSONDecodeError\<close> returns the payload for
  invalid arguments. (Another exception of the parser leaves the generic call.)
\<close>

theorem absent_token_no_network_call:
  assumes "get_user_valves self user = Inr uv" and "JIRA_PAT uv = []"
  shows "snd (invoke self net op user sent) = sent
       \<and> (\<not> (READ_ONLY_MODE (valves self) \<and> calls_write_tool op) \<longrightarrow>
            parser_exception op = None \<longrightarrow>
            fst (invoke self net op user sent) =
              Inr (unicode_of (json_dumps (JObj
                     [(''error'', JStr ''Jira PAT not configured''),
                      (''message'',
                       JStr ''Please configure your Jira Personal Access Token in User Settings'')]))))
       \<and> (READ_ONLY_MODE (valves self) \<and> calls_write_tool op \<longrightarrow>
            (\<exists>action. denied_action op = Some action
               \<and> fst (invoke self net op user sent) = Inr (read_only_message action)))
       \<and> (\<not> (READ_ONLY_MODE (valves self) \<and> calls_write_tool op) \<longrightarrow>
            parser_exception op = Some e \<longrightarrow>
            fst (invoke self net op user sent) =
              (if exn_class_of e = JSONDecodeError
               then Inr (unicode_of (json_dumps (JObj
                      [(''error'', JStr (''Invalid JSON arguments: '' @ exn_str e))])))
               else Inl e))"
proof (cases op)
  case (CallMcpTool name args)
  then show ?thesis
    using assms
    by (cases args)
       (auto simp add: call_mcp_tool_def call_tool_no_token calls_write_tool_def
          not_configured_def error_payload_def)
qed (use assms in \<open>auto simp add: operation_defs call_tool_no_token calls_write_tool_def
       is_write_tool_def write_tools_def not_configured_def\<close>)

text \<open>
  The claim as the specification states it fails for a write operation under the
  default configuration: the flag is set and the token is empty, and
  \<^verbatim>\<open>jira_create_issue\<close> returns the read-only message, which is not the
  \<^verbatim>\<open>not configured\<close> payload.
\<close>

theorem absent_token_counterexample:
  "get_user_valves init_Tools None = Inr default_UserValves
   \<and> JIRA_PAT default_UserValves = []
   \<and> jira_create_issue init_Tools (scripted []) ''PROJ'' ''Title'' ''Task'' [] [] [] [] None []
       = (Inr (read_only_message ''create a new Jira issue''), [])
   \<and> read_only_message ''create a new Jira issue''
       \<noteq> unicode_of (json_dumps (JObj
            [(''error'', JStr ''Jira PAT not configured''),
             (''message'',
              JStr ''Please configure your Jira Personal Access Token in User Settings'')]))"
  by (simp add: get_user_valves_def init_Tools_def default_UserValves_def default_Valves_def
        jira_create_issue_def read_only_message_def unicode_of_def)

theorem absent_token_no_network_call_witness:
  "get_user_valves init_Tools None = Inr default_UserValves
   \<and> JIRA_PAT default_UserValves = []
   \<and> invoke init_Tools (scripted []) (JiraSearch ''project = X'' 20 []) None []
       = (Inr (unicode_of (json_dumps (JObj
                 [(''error'', JStr ''Jira PAT not configured''),
                  (''message'',
                   JStr ''Please configure your Jira Personal Access Token in User Settings'')]))),
          [])
   \<and> invoke init_Tools (scripted []) DiscoverJiraTools None []
       = (Inr (unicode_of (json_dumps (JObj
                 [(''error'', JStr ''Jira PAT not configured''),
                  (''message'',
                   JStr ''Please configure your Jira Personal Access Token in User Settings'')]))),
          [])
   \<and> invoke init_Tools (scripted []) (JiraDeleteIssue ''PROJ-1'') None []
       = (Inr (read_only_message (''delete issue '' @ ''PROJ-1'')), [])
   \<and> invoke init_Tools (scripted []) (CallMcpTool ''jira_search'' bad_arguments) None []
       = (Inr (unicode_of (json_dumps (JObj
                 [(''error'',
                   JStr (''Invalid JSON arguments: ''
                         @ ''Expecting property name enclosed in double quotes: line 1 column 2 (char 1)''))]))),
          [])"
proof -
  let ?e = "Exn JSONDecodeError
              ''Expecting property name enclosed in double quotes: line 1 column 2 (char 1)''"
  have u: "get_user_valves init_Tools None = Inr default_UserValves"
    by (simp add: get_user_valves_def init_Tools_def)
  have p: "JIRA_PAT default_UserValves = []" by (simp add: default_UserValves_def)
  have ro: "READ_ONLY_MODE (valves init_Tools)"
    by (simp add: init_Tools_def default_Valves_def)
  have c1: "\<not> calls_write_tool (JiraSearch ''project = X'' 20 [])"
           "parser_exception (JiraSearch ''project = X'' 20 []) = None"
           "\<not> calls_write_tool DiscoverJiraTools" "parser_exception DiscoverJiraTools = None"
           "calls_write_tool (JiraDeleteIssue ''PROJ-1'')"
           "\<not> calls_write_tool (CallMcpTool ''jira_search'' bad_arguments)"
           "parser_exception (CallMcpTool ''jira_search'' bad_arguments) = Some ?e"
    by (simp_all add: calls_write_tool_def is_write_tool_def write_tools_def bad_arguments_def)
  note t = absent_token_no_network_call [OF u p, where net = "scripted []" and sent = "[]"]
  have r1: "invoke init_Tools (scripted []) (JiraSearch ''project = X'' 20 []) None []
       = (Inr (unicode_of (json_dumps (JObj
                 [(''error'', JStr ''Jira PAT not configured''),
                  (''message'',
                   JStr ''Please configure your Jira Personal Access Token in User Settings'')]))),
          [])"
    using t [where op = "JiraSearch ''project = X'' 20 []"] c1 by (simp add: prod_eq_iff)
  have r2: "invoke init_Tools (scripted []) DiscoverJiraTools None []
       = (Inr (unicode_of (json_dumps (JObj
                 [(''error'', JStr ''Jira PAT not configured''),
                  (''message'',
                   JStr ''Please configure your Jira Personal Access Token in User Settings'')]))),
          [])"
    using t [where op = DiscoverJiraTools] c1 by (simp add: prod_eq_iff)
  have r3: "invoke init_Tools (scripted []) (JiraDeleteIssue ''PROJ-1'') None []
       = (Inr (read_only_message (''delete issue '' @ ''PROJ-1'')), [])"
    using t [where op = "JiraDeleteIssue ''PROJ-1''"] c1 ro by (simp add: prod_eq_iff)
  have r4: "invoke init_Tools (scripted []) (CallMcpTool ''jira_search'' bad_arguments) None []
       = (Inr (unicode_of (json_dumps (JObj
                 [(''error'',
                   JStr (''Invalid JSON arguments: ''
                         @ ''Expecting property name enclosed in double quotes: line 1 column 2 (char 1)''))]))),
          [])"
    using t [where op = "CallMcpTool ''jira_search'' bad_arguments" and e = ?e] c1
    by (simp add: prod_eq_iff)
  from u p r1 r2 r3 r4 show ?thesis by blast
qed

text \<open>
  Claim C7, as the code has it. When \<^verbatim>\<open>json.loads\<close> raises on the argument
  string, \<^verbatim>\<open>call_mcp_tool\<close> sends no request, on any path. When the exception is
  \<^verbatim>\<open>JSONDecodeError\<close>, the result is the payload for invalid arguments with the
  parser's message, once the gate has let the tool name pass and the resolver has
  returned; when the gate denies the tool name, the result is the read-only
  message. (An exception of the parser of another class, and an exception of the
  resolver, leave the method.)
\<close>

theorem malformed_arguments_no_network_call:
  assumes "json_loads arguments = Inl e"
  shows "snd (call_mcp_tool self net tool_name arguments user sent) = sent
       \<and> (\<not> (READ_ONLY_MODE (valves self) \<and> is_write_tool tool_name) \<longrightarrow>
            get_user_valves self user = Inr uv \<longrightarrow>
            exn_class_of e = JSONDecodeError \<longrightarrow>
            fst (call_mcp_tool self net tool_name arguments user sent) =
              Inr (unicode_of (json_dumps (JObj
                     [(''error'', JStr (''Invalid JSON arguments: '' @ exn_str e))]))))
       \<and> (READ_ONLY_MODE (valves self) \<and> is_write_tool tool_name \<longrightarrow>
            fst (call_mcp_tool self net tool_name arguments user sent) =
              Inr (read_only_message (''execute '' @ quoted tool_name)))
       \<and> (\<not> (READ_ONLY_MODE (valves self) \<and> is_write_tool tool_name) \<longrightarrow>
            get_user_valves self user = Inr uv \<longrightarrow>
            exn_class_of e \<noteq> JSONDecodeError \<longrightarrow>
            fst (call_mcp_tool self net tool_name arguments user sent) = Inl e)
       \<and> (\<not> (READ_ONLY_MODE (valves self) \<and> is_write_tool tool_name) \<longrightarrow>
            get_user_valves self user = Inl e' \<longrightarrow>
            fst (call_mcp_tool self net tool_name arguments user sent) = Inl e')"
  using assms by (auto simp add: call_mcp_tool_def error_payload_def split: sum.splits)

text \<open>
  The claim as the specification states it fails in two ways. For a write tool under
  the default configuration the argument string \<^verbatim>\<open>{bad\<close> does not parse, and the
  result is the read-only message, not the payload for invalid arguments. For a
  read tool, two thousand opening brackets are not valid JSON either, and the
  parser's \<^verbatim>\<open>RecursionError\<close> leaves the method.
\<close>

theorem malformed_arguments_counterexample:
  "json_loads bad_arguments =
     Inl (Exn JSONDecodeError
            ''Expecting property name enclosed in double quotes: line 1 column 2 (char 1)'')
   \<and> call_mcp_tool init_Tools (scripted []) ''jira_create_issue'' bad_arguments None []
       = (Inr (read_only_message (''execute '' @ quoted ''jira_create_issue'')), [])
   \<and> read_only_message (''execute '' @ quoted ''jira_create_issue'')
       \<noteq> unicode_of (json_dumps (JObj
            [(''error'',
              JStr (''Invalid JSON arguments: ''
                    @ ''Expecting property name enclosed in double quotes: line 1 column 2 (char 1)''))]))
   \<and> call_mcp_tool init_Tools (scripted []) ''jira_search'' deep_arguments token_context []
       = (Inl (Exn RecursionError
                 ''maximum recursion depth exceeded while decoding a JSON array from a unicode string''),
          [])"
  by (simp add: bad_arguments_def deep_arguments_def call_mcp_tool_def init_Tools_def
        default_Valves_def is_write_tool_def write_tools_def read_only_message_def
        unicode_of_def get_user_valves_def token_context_def)

theorem malformed_arguments_no_network_call_witness:
  "json_loads bad_arguments =
     Inl (Exn JSONDecodeError
            ''Expecting property name enclosed in double quotes: line 1 column 2 (char 1)'')
   \<and> \<not> is_write_tool ''jira_search''
   \<and> get_user_valves init_Tools token_context
       = Inr \<lparr>LITELLM_API_KEY = [], JIRA_PAT = ''pat-1'', REQUEST_TIMEOUT = 120\<rparr>
   \<and> call_mcp_tool init_Tools (scripted []) ''jira_search'' bad_arguments token_context []
       = (Inr (unicode_of (json_dumps (JObj
                 [(''error'',
                   JStr (''Invalid JSON arguments: ''
                         @ ''Expecting property name enclosed in double quotes: line 1 column 2 (char 1)''))]))),
          [])
   \<and> call_mcp_tool init_Tools (scripted []) ''jira_delete_issue'' bad_arguments token_context []
       = (Inr (read_only_message (''execute '' @ quoted ''jira_delete_issue'')), [])
   \<and> call_mcp_tool init_Tools (scripted []) ''jira_search'' deep_arguments token_context []
       = (Inl (Exn RecursionError
                 ''maximum recursion depth exceeded while decoding a JSON array from a unicode string''),
          [])
   \<and> call_mcp_tool init_Tools (scripted []) ''jira_search'' bad_arguments null_token_context []
       = (Inl (Exn ValidationError
                 ''1 validation error for UserValves: JIRA_PAT: Input should be a valid string''),
          [])"
proof -
  let ?uv = "\<lparr>LITELLM_API_KEY = [], JIRA_PAT = ''pat-1'', REQUEST_TIMEOUT = 120\<rparr>"
  let ?d = "Exn JSONDecodeError
              ''Expecting property name enclosed in double quotes: line 1 column 2 (char 1)''"
  let ?r = "Exn RecursionError
              ''maximum recursion depth exceeded while decoding a JSON array from a unicode string''"
  let ?v = "Exn ValidationError
              ''1 validation error for UserValves: JIRA_PAT: Input should be a valid string''"
  have bad: "json_loads bad_arguments = Inl ?d" by (simp add: bad_arguments_def)
  have deep: "json_loads deep_arguments = Inl ?r" by (simp add: deep_arguments_def)
  have nw: "\<not> is_write_tool ''jira_search''" and w: "is_write_tool ''jira_delete_issue''"
    by (simp_all add: is_write_tool_def write_tools_def)
  have ro: "READ_ONLY_MODE (valves init_Tools)"
    by (simp add: init_Tools_def default_Valves_def)
  have u: "get_user_valves init_Tools token_context = Inr ?uv"
    by (simp add: get_user_valves_def token_context_def)
  have n: "get_user_valves init_Tools null_token_context = Inl ?v"
    by (simp add: get_user_valves_def null_token_context_def)
  have c1: "exn_class_of ?d = JSONDecodeError" and c2: "exn_class_of ?r \<noteq> JSONDecodeError"
    by simp_all
  have r1: "call_mcp_tool init_Tools (scripted []) ''jira_search'' bad_arguments token_context []
       = (Inr (unicode_of (json_dumps (JObj
                 [(''error'',
                   JStr (''Invalid JSON arguments: ''
                         @ ''Expecting property name enclosed in double quotes: line 1 column 2 (char 1)''))]))),
          [])"
    using malformed_arguments_no_network_call
            [OF bad, where self = init_Tools and net = "scripted []"
               and tool_name = "''jira_search''" and user = token_context and sent = "[]"
               and uv = ?uv] nw u c1
    by (simp add: prod_eq_iff)
  have r2: "call_mcp_tool init_Tools (scripted []) ''jira_delete_issue'' bad_arguments
              token_context []
       = (Inr (read_only_message (''execute '' @ quoted ''jira_delete_issue'')), [])"
    using malformed_arguments_no_network_call
            [OF bad, where self = init_Tools and net = "scripted []"
               and tool_name = "''jira_delete_issue''" and user = token_context
               and sent = "[]"] w ro
    by (simp add: prod_eq_iff)
  have r3: "call_mcp_tool init_Tools (scripted []) ''jira_search'' deep_arguments token_context []
       = (Inl ?r, [])"
    using malformed_arguments_no_network_call
            [OF deep, where self = init_Tools and net = "scripted []"
               and tool_name = "''jira_search''" and user = token_context and sent = "[]"
               and uv = ?uv] nw u c2
    by (simp add: prod_eq_iff)
  have r4: "call_mcp_tool init_Tools (scripted []) ''jira_search'' bad_arguments
              null_token_context []
       = (Inl ?v, [])"
    using malformed_arguments_no_network_call
            [OF bad, where self = init_Tools and net = "scripted []"
               and tool_name = "''jira_search''" and user = null_token_context
               and sent = "[]" and e' = ?v] nw n
    by (simp add: prod_eq_iff)
  from bad nw u r1 r2 r3 r4 show ?thesis by blast
qed

section \<open>What reaches the host\<close>

text \<open>
  Claim C1, as the code has it. The resolver returns the defaults for an absent or
  empty context, for a context without \<^verbatim>\<open>valves\<close> and for a \<^verbatim>\<open>valves\<close>
  entry that is neither an instance nor a dictionary; it returns an instance as it
  is; for a dictionary it returns what \<^verbatim>\<open>UserValves(**valves)\<close> returns and raises
  what that raises. \<^verbatim>\<open>_call_tool\<close> always returns a string, and so does discovery
  once the resolver has returned: an exception raised inside their \<^verbatim>\<open>try\<close>
  statements becomes the JSON payload with its text under \<^verbatim>\<open>error\<close>. Every public
  operation returns a string whenever the resolver returns and, in the generic
  call, \<^verbatim>\<open>json.loads\<close> returns or raises \<^verbatim>\<open>JSONDecodeError\<close>. An exception
  reaches the host in two cases only, both before any request is sent: the
  constructor rejects the dictionary, or the parser of the generic call raises an
  exception of another class.
\<close>

theorem operations_raise_only_before_network:
  "get_user_valves self None = Inr (user_valves self)
   \<and> get_user_valves self (Some []) = Inr (user_valves self)
   \<and> (map_of d ''valves'' = None \<longrightarrow> get_user_valves self (Some d) = Inr (user_valves self))
   \<and> (map_of d ''valves'' = Some (TypedValves v) \<longrightarrow> get_user_valves self (Some d) = Inr v)
   \<and> (map_of d ''valves'' = Some (PlainValue p) \<longrightarrow>
        get_user_valves self (Some d) = Inr (user_valves self))
   \<and> (map_of d ''valves'' = Some (DictValves kvs constructed) \<longrightarrow>
        get_user_valves self (Some d) = constructed)
   \<and> (\<exists>s. fst (call_tool self net tool_name arguments uv sent) = Inr s)
   \<and> (JIRA_PAT uv \<noteq> [] \<longrightarrow>
        call_tool_try self net tool_name arguments uv sent = (Inl e1, sent1) \<longrightarrow>
        call_tool self net tool_name arguments uv sent =
          (Inr (unicode_of (json_dumps (JObj
             [(''error'',
               JStr (if exn_class_of e1 = Timeout
                     then ''Request timeout after '' @ show_int (REQUEST_TIMEOUT uv)
                          @ ''s - try increasing REQUEST_TIMEOUT in user settings''
                     else exn_str e1))]))),
           sent1))
   \<and> (get_user_valves self user = Inr uv \<longrightarrow> JIRA_PAT uv \<noteq> [] \<longrightarrow>
        discover_try self net uv sent = (Inl e1, sent1) \<longrightarrow>
        discover_jira_tools self net user sent =
          (Inr (unicode_of (json_dumps (JObj
             [(''error'', JStr (''Discovery failed: '' @ exn_str e1))]))),
           sent1))
   \<and> (get_user_valves self user = Inr uv \<longrightarrow>
        parser_exception op = None
        \<or> (\<exists>e2. parser_exception op = Some e2 \<and> exn_class_of e2 = JSONDecodeError) \<longrightarrow>
        (\<exists>s. fst (invoke self net op user sent) = Inr s))
   \<and> (fst (invoke self net op user sent) = Inl e \<longrightarrow>
        snd (invoke self net op user sent) = sent
        \<and> ((\<exists>d' kvs'. user = Some d' \<and> map_of d' ''valves'' = Some (DictValves kvs' (Inl e)))
            \<or> (\<exists>uv'. get_user_valves self user = Inr uv') \<and> parser_exception op = Some e
               \<and> exn_class_of e \<noteq> JSONDecodeError))"
proof -
  have resolver:
    "get_user_valves self None = Inr (user_valves self)"
    "get_user_valves self (Some []) = Inr (user_valves self)"
    "map_of d ''valves'' = None \<longrightarrow> get_user_valves self (Some d) = Inr (user_valves self)"
    "map_of d ''valves'' = Some (TypedValves v) \<longrightarrow> get_user_valves self (Some d) = Inr v"
    "map_of d ''valves'' = Some (PlainValue p) \<longrightarrow>
        get_user_valves self (Some d) = Inr (user_valves self)"
    "map_of d ''valves'' = Some (DictValves kvs constructed) \<longrightarrow>
        get_user_valves self (Some d) = constructed"
    by (auto simp: get_user_valves_def split: plain_value.splits)
  have raised: "snd (invoke self net op user sent) = sent
        \<and> ((\<exists>d' kvs'. user = Some d' \<and> map_of d' ''valves'' = Some (DictValves kvs' (Inl e)))
            \<or> (\<exists>uv'. get_user_valves self user = Inr uv') \<and> parser_exception op = Some e
               \<and> exn_class_of e \<noteq> JSONDecodeError)"
    if "fst (invoke self net op user sent) = Inl e"
    using invoke_raises [OF that] resolver_raises_on_mapping [of self user e] by blast
  from resolver call_tool_returns [of self net tool_name arguments uv sent]
    call_tool_converts [of uv self net tool_name arguments sent e1 sent1]
    discover_converts [of self user uv net sent e1 sent1]
    invoke_returns [of self user uv op net sent] raised
  show ?thesis by blast
qed

text \<open>
  The claim as the specification states it fails in two ways. For a context whose
  \<^verbatim>\<open>valves\<close> dictionary gives \<^verbatim>\<open>None\<close> for the token, the constructor raises
  \<^verbatim>\<open>ValidationError\<close>, and so do the resolver and \<^verbatim>\<open>jira_search\<close>. For two
  thousand opening brackets as argument string, the generic call raises the parser's
  \<^verbatim>\<open>RecursionError\<close>.
\<close>

theorem operation_raises_counterexample:
  "get_user_valves init_Tools null_token_context =
     Inl (Exn ValidationError
            ''1 validation error for UserValves: JIRA_PAT: Input should be a valid string'')
   \<and> jira_search init_Tools (scripted []) ''project = X'' 20 [] null_token_context []
       = (Inl (Exn ValidationError
                 ''1 validation error for UserValves: JIRA_PAT: Input should be a valid string''),
          [])
   \<and> call_mcp_tool init_Tools (scripted []) ''jira_search'' deep_arguments token_context []
       = (Inl (Exn RecursionError
                 ''maximum recursion depth exceeded while decoding a JSON array from a unicode string''),
          [])"
  by (simp add: jira_search_def get_user_valves_def null_token_context_def token_context_def
        call_mcp_tool_def deep_arguments_def init_Tools_def default_Valves_def
        is_write_tool_def write_tools_def)

theorem operations_raise_only_before_network_witness:
  "get_user_valves init_Tools token_context
     = Inr \<lparr>LITELLM_API_KEY = [], JIRA_PAT = ''pat-1'', REQUEST_TIMEOUT = 120\<rparr>
   \<and> (\<exists>s. fst (invoke init_Tools (scripted []) (JiraGetIssue ''PROJ-1'' []) token_context [])
            = Inr s)
   \<and> (\<exists>s. fst (invoke init_Tools (scripted []) (CallMcpTool ''jira_search'' bad_arguments)
                   token_context [])
            = Inr s)
   \<and> get_user_valves init_Tools (Some [(''valves'', PlainValue (PStr ''none''))])
       = Inr (user_valves init_Tools)
   \<and> get_user_valves init_Tools (Some [(''valves'', TypedValves example_user)])
       = Inr example_user
   \<and> get_user_valves init_Tools (Some [(''name'', PlainValue (PStr ''Ann''))])
       = Inr (user_valves init_Tools)
   \<and> fst (invoke init_Tools (scripted []) (JiraGetIssue ''PROJ-1'' []) null_token_context [])
       = Inl (Exn ValidationError
                ''1 validation error for UserValves: JIRA_PAT: Input should be a valid string'')
   \<and> snd (invoke init_Tools (scripted []) (JiraGetIssue ''PROJ-1'' []) null_token_context [])
       = []
   \<and> call_tool init_Tools (scripted []) ''jira_search'' (JObj []) example_user []
       = (Inr (unicode_of (json_dumps (JObj [(''error'', JStr ''Connection refused'')]))),
          [initialize_request init_Tools example_user])
   \<and> discover_jira_tools init_Tools (scripted [Failed (Exn Timeout ''Read timed out.'')])
        (Some [(''valves'', TypedValves example_user)]) []
       = (Inr (unicode_of (json_dumps (JObj
                 [(''error'', JStr (''Discovery failed: '' @ ''Read timed out.''))]))),
          [initialize_request init_Tools example_user])"
proof -
  let ?uv = "\<lparr>LITELLM_API_KEY = [], JIRA_PAT = ''pat-1'', REQUEST_TIMEOUT = 120\<rparr>"
  let ?e = "Exn ValidationError
              ''1 validation error for UserValves: JIRA_PAT: Input should be a valid string''"
  let ?d = "Exn JSONDecodeError
              ''Expecting property name enclosed in double quotes: line 1 column 2 (char 1)''"
  let ?typed = "Some [(''valves'', TypedValves example_user)]"
  have m0: "map_of [(''valves'', DictValves [(''JIRA_PAT'', JStr ''pat-1'')] (Inr ?uv))] ''valves''
              = Some (DictValves [(''JIRA_PAT'', JStr ''pat-1'')] (Inr ?uv))"
    by simp
  have u: "get_user_valves init_Tools token_context = Inr ?uv"
    using operations_raise_only_before_network
            [where self = init_Tools
               and d = "[(''valves'', DictValves [(''JIRA_PAT'', JStr ''pat-1'')] (Inr ?uv))]"
               and kvs = "[(''JIRA_PAT'', JStr ''pat-1'')]" and constructed = "Inr ?uv"] m0
    by (simp add: token_context_def)
  have m1: "map_of [(''valves'', PlainValue (PStr ''none''))] ''valves''
              = Some (PlainValue (PStr ''none''))"
    and m3: "map_of [(''valves'', TypedValves example_user)] ''valves''
               = Some (TypedValves example_user)"
    and m4: "map_of [(''name'', PlainValue (PStr ''Ann''))] ''valves'' = None"
    by simp_all
  have p1: "parser_exception (JiraGetIssue ''PROJ-1'' []) = None"
    and p2: "parser_exception (CallMcpTool ''jira_search'' bad_arguments) = Some ?d"
    and p3: "exn_class_of ?d = JSONDecodeError"
    by (simp_all add: bad_arguments_def)
  have raised: "fst (invoke init_Tools (scripted []) (JiraGetIssue ''PROJ-1'' [])
                       null_token_context []) = Inl ?e"
    by (simp add: jira_get_issue_def get_user_valves_def null_token_context_def)
  have pat: "JIRA_PAT example_user \<noteq> []" by (simp add: example_user_def)
  have try1: "call_tool_try init_Tools (scripted []) ''jira_search'' (JObj []) example_user []
                = (Inl (Exn RequestError ''Connection refused''),
                   [initialize_request init_Tools example_user])"
    by (simp add: call_tool_try_def handshake_def post_def scripted_def)
  have try2: "discover_try init_Tools (scripted [Failed (Exn Timeout ''Read timed out.'')])
                example_user []
                = (Inl (Exn Timeout ''Read timed out.''),
                   [initialize_request init_Tools example_user])"
    by (simp add: discover_try_def handshake_def post_def scripted_def)
  note t = operations_raise_only_before_network [where self = init_Tools and sent = "[]"]
  have r1: "\<exists>s. fst (invoke init_Tools (scripted []) (JiraGetIssue ''PROJ-1'' [])
                        token_context []) = Inr s"
    using t [where net = "scripted []" and op = "JiraGetIssue ''PROJ-1'' []"
               and user = token_context and uv = ?uv] u p1
    by blast
  have r1': "\<exists>s. fst (invoke init_Tools (scripted [])
                         (CallMcpTool ''jira_search'' bad_arguments) token_context []) = Inr s"
    using t [where net = "scripted []" and op = "CallMcpTool ''jira_search'' bad_arguments"
               and user = token_context and uv = ?uv] u p2 p3
    by blast
  have r2: "get_user_valves init_Tools (Some [(''valves'', PlainValue (PStr ''none''))])
              = Inr (user_valves init_Tools)"
    using t [where d = "[(''valves'', PlainValue (PStr ''none''))]" and p = "PStr ''none''"] m1
    by blast
  have r3: "get_user_valves init_Tools ?typed = Inr example_user"
    using t [where d = "[(''valves'', TypedValves example_user)]" and v = example_user] m3
    by blast
  have r4: "get_user_valves init_Tools (Some [(''name'', PlainValue (PStr ''Ann''))])
              = Inr (user_valves init_Tools)"
    using t [where d = "[(''name'', PlainValue (PStr ''Ann''))]"] m4 by blast
  have r5: "snd (invoke init_Tools (scripted []) (JiraGetIssue ''PROJ-1'' [])
                      null_token_context []) = []"
    using t [where net = "scripted []" and op = "JiraGetIssue ''PROJ-1'' []"
               and user = null_token_context and e = ?e] raised
    by blast
  have r6: "call_tool init_Tools (scripted []) ''jira_search'' (JObj []) example_user []
       = (Inr (unicode_of (json_dumps (JObj [(''error'', JStr ''Connection refused'')]))),
          [initialize_request init_Tools example_user])"
    using t [where net = "scripted []" and tool_name = "''jira_search''"
               and arguments = "JObj []" and uv = example_user
               and ?e1.0 = "Exn RequestError ''Connection refused''"
               and ?sent1.0 = "[initialize_request init_Tools example_user]"] pat try1
    by simp
  have r7: "discover_jira_tools init_Tools (scripted [Failed (Exn Timeout ''Read timed out.'')])
        ?typed []
       = (Inr (unicode_of (json_dumps (JObj
                 [(''error'', JStr (''Discovery failed: '' @ ''Read timed out.''))]))),
          [initialize_request init_Tools example_user])"
    using t [where net = "scripted [Failed (Exn Timeout ''Read timed out.'')]"
               and user = ?typed and uv = example_user
               and ?e1.0 = "Exn Timeout ''Read timed out.''"
               and ?sent1.0 = "[initialize_request init_Tools example_user]"] r3 pat try2
    by simp
  from u r1 r1' r2 r3 r4 raised r5 r6 r7 show ?thesis by blast
qed

end
